theory Spec2Isabelle
  imports Complex_Main "HOL-Library.Sublist"
begin

section \<open>Python numbers\<close>

text \<open>
  The program computes with Python floats (IEEE 754 binary64, round to nearest, ties to
  even). A float is modelled by the rational number it denotes; every arithmetic
  operation computes the exact rational result and rounds it with \<open>fl\<close>. Normal and
  subnormal numbers are covered; infinities, NaN and results of magnitude \<open>2 ^ 1024\<close>
  or more are outside the model. Python integers are \<open>int\<close>.
\<close>

function ilog2 :: "int \<Rightarrow> int" where
  "ilog2 n = (if n < 2 then 0 else 1 + ilog2 (n div 2))"
  by auto
termination
  by (relation "measure nat") auto

declare ilog2.simps [simp del]

definition pow2 :: "int \<Rightarrow> rat" where
  "pow2 e = (if 0 \<le> e then 2 ^ nat e else 1 / 2 ^ nat (- e))"

text \<open>\<open>flog2 x\<close> is the binary exponent of a positive rational: \<open>2 ^ flog2 x \<le> x < 2 ^ (flog2 x + 1)\<close>.\<close>

definition flog2 :: "rat \<Rightarrow> int" where
  "flog2 x = (if 1 \<le> x then ilog2 \<lfloor>x\<rfloor> else - (1 + ilog2 (\<lceil>1 / x\<rceil> - 1)))"

definition round_half_even :: "rat \<Rightarrow> int" where
  "round_half_even x =
     (let n = \<lfloor>x\<rfloor>; d = x - of_int n
      in if d < 1 / 2 then n else if 1 / 2 < d then n + 1 else if even n then n else n + 1)"

text \<open>Rounding to 53 significant bits, with the fixed spacing \<open>2 ^ - 1074\<close> below \<open>2 ^ - 1022\<close>.\<close>

definition fl :: "rat \<Rightarrow> rat" where
  "fl x = (if x = 0 then 0
           else let u = pow2 (max (flog2 \<bar>x\<bar> - 52) (- 1074))
                in of_int (round_half_even (x / u)) * u)"

definition fadd :: "rat \<Rightarrow> rat \<Rightarrow> rat" where
  "fadd a b = fl (a + b)"

definition fsub :: "rat \<Rightarrow> rat \<Rightarrow> rat" where
  "fsub a b = fl (a - b)"

definition fmul :: "rat \<Rightarrow> rat \<Rightarrow> rat" where
  "fmul a b = fl (a * b)"

text \<open>Division is only called with a non-zero divisor (see \<open>hue\<close>).\<close>

definition fdiv :: "rat \<Rightarrow> rat \<Rightarrow> rat" where
  "fdiv a b = fl (a / b)"

text \<open>Python's \<open>int(x)\<close> on a float truncates towards zero.\<close>

definition py_int :: "rat \<Rightarrow> int" where
  "py_int x = (if 0 \<le> x then \<lfloor>x\<rfloor> else \<lceil>x\<rceil>)"

text \<open>The conversion of an integer operand that Python makes before a float operation.\<close>

definition py_float :: "int \<Rightarrow> rat" where
  "py_float n = fl (of_int n)"

section \<open>Devices, the outside world and the program state\<close>

datatype conn = Conn_Bluetooth | Conn_USB | Conn_Unknown

text \<open>
  A \<open>move\<close> is one \<open>psmove.PSMove\<close> object: \<open>this\<close> is the native pointer (\<open>None\<close> when
  initialisation failed), \<open>get_serial\<close> the identifier (which may be \<open>None\<close>).
\<close>

record move =
  this :: "nat option"
  connection_type :: conn
  get_serial :: "string option"

text \<open>What one \<open>poll()\<close> of a device yields: its success and the sensor values read after it.\<close>

record reading =
  poll :: bool
  get_trigger :: int
  get_buttons :: int
  get_battery :: int
  get_accelerometer_frame :: "rat \<times> rat \<times> rat"

text \<open>Every call that leaves the program: device actuation, pairing, \<open>hcitool dc\<close>, \<open>time.sleep\<close>.\<close>

datatype event =
    Poll move
  | Set_leds move "int list"
  | Set_rumble move int
  | Update_leds move
  | Pair move
  | Disconnect string
  | Sleep rat

datatype error = KeyError | TypeError | RuntimeError | IndexError

text \<open>
  A computation returns, raises a Python exception (which ends the process: nothing in
  the program catches one), or is still inside a loop when the recorded inputs end.
\<close>

datatype 'a outcome = Return 'a | Raises error | Unfinished

fun bnd :: "'a outcome \<Rightarrow> ('a \<Rightarrow> 'b outcome) \<Rightarrow> 'b outcome" where
  "bnd (Return x) f = f x"
| "bnd (Raises e) f = Raises e"
| "bnd Unfinished f = Unfinished"

text \<open>
  The module's global variables. \<open>poll_failures\<close> is a \<open>defaultdict(int)\<close>: a missing key
  reads as 0. \<open>controllers_alive\<close> is a dict whose iteration order matters, kept as an
  association list in insertion order. \<open>clock\<close> holds the values that the coming calls
  of \<open>time.time()\<close> return, \<open>trace\<close> the events issued so far. \<open>python3\<close> tells whether
  \<open>dict.items()\<close> is a live view (Python 3) or a copied list (Python 2).
\<close>

record game =
  poll_failures :: "string option \<Rightarrow> int"
  controller_colours :: "string option \<rightharpoonup> int list"
  paired_controllers :: "string option list"
  controllers_alive :: "(string option \<times> move) list"
  usb_paired_controllers :: "string option list"
  moves :: "move list"
  start :: bool
  battery :: bool
  battery_pressed :: bool
  move_last_values :: "string option \<rightharpoonup> rat"
  running :: bool
  python3 :: bool
  clock :: "rat list"
  trace :: "event list"

definition emit :: "event list \<Rightarrow> game \<Rightarrow> game" where
  "emit es g = g\<lparr>trace := trace g @ es\<rparr>"

section \<open>Liveness tracker\<close>

text \<open>
  \<open>disconnect_move\<close> runs \<open>subprocess.call(['hcitool', 'dc', move.get_serial()])\<close>. An
  argument list that holds \<open>None\<close> makes \<open>subprocess\<close> raise a TypeError; with a serial
  the command is run and its exit status ignored.
\<close>

definition disconnect_move :: "move \<Rightarrow> game \<Rightarrow> game outcome" where
  "disconnect_move m g =
     (case get_serial m of
        None \<Rightarrow> Raises TypeError
      | Some s \<Rightarrow> Return (emit [Disconnect s] g))"

text \<open>\<open>poll_move\<close>; \<open>ok\<close> is what \<open>move.poll()\<close> returns.\<close>

definition poll_move :: "move \<Rightarrow> bool \<Rightarrow> game \<Rightarrow> (bool \<times> game) outcome" where
  "poll_move m ok g =
     (let serial = get_serial m; g1 = emit [Poll m] g
      in if ok then Return (True, g1\<lparr>poll_failures := (poll_failures g1)(serial := 0)\<rparr>)
         else let g2 = g1\<lparr>poll_failures := (poll_failures g1)(serial := poll_failures g1 serial + 1)\<rparr>
              in if 1000 < poll_failures g2 serial
                 then bnd (disconnect_move m g2) (\<lambda>g3. Return (False, g3))
                 else Return (False, g2))"

text \<open>\<open>n\<close> calls of \<open>poll_move\<close> on one device in a row, the poll failing in all of them.\<close>

fun failed_polls :: "nat \<Rightarrow> move \<Rightarrow> game \<Rightarrow> game outcome" where
  "failed_polls 0 m g = Return g"
| "failed_polls (Suc n) m g =
     bnd (failed_polls n m g) (\<lambda>g1. bnd (poll_move m False g1) (\<lambda>(ok, g2). Return g2))"

section \<open>Palette generator\<close>

text \<open>\<open>hsv_to_rgb\<close>; \<open>None\<close> is the function running off its end.\<close>

definition hsv_to_rgb :: "rat \<Rightarrow> rat \<Rightarrow> rat \<Rightarrow> rat list option" where
  "hsv_to_rgb h s v =
     (if s = 0 then Some [fmul v 255, fmul v 255, fmul v 255]
      else let i = py_int (fmul h 6);
               f = fsub (fmul h 6) (of_int i);
               p = py_int (fmul 255 (fmul v (fsub 1 s)));
               q = py_int (fmul 255 (fmul v (fsub 1 (fmul s f))));
               t = py_int (fmul 255 (fmul v (fsub 1 (fmul s (fsub 1 f)))));
               v' = fmul v 255;
               i' = i mod 6
           in if i' = 0 then Some [v', of_int t, of_int p]
              else if i' = 1 then Some [of_int q, v', of_int p]
              else if i' = 2 then Some [of_int p, v', of_int t]
              else if i' = 3 then Some [of_int p, of_int q, v']
              else if i' = 4 then Some [of_int t, of_int p, v']
              else if i' = 5 then Some [v', of_int p, of_int q]
              else None)"


text \<open>One element of \<open>HSV\<close> for the round's palette: \<open>x*1.0/len(moves)\<close>.\<close>

definition hue :: "nat \<Rightarrow> nat \<Rightarrow> rat" where
  "hue x n = fdiv (fmul (py_float (int x)) 1) (py_float (int n))"

text \<open>
  \<open>[[int(x) for x in hsv_to_rgb(*colour)] for colour in HSV]\<close>; iterating over \<open>None\<close>
  raises a TypeError.
\<close>

fun colour_ranges :: "(rat \<times> rat \<times> rat) list \<Rightarrow> int list list outcome" where
  "colour_ranges [] = Return []"
| "colour_ranges ((h, s, v) # cs) =
     (case hsv_to_rgb h s v of
        None \<Rightarrow> Raises TypeError
      | Some rgb \<Rightarrow> bnd (colour_ranges cs) (\<lambda>rest. Return (map py_int rgb # rest)))"

text \<open>A dict comprehension: a later pair with the same key replaces an earlier one.\<close>

definition dict_of :: "('k \<times> 'v) list \<Rightarrow> ('k \<rightharpoonup> 'v)" where
  "dict_of kvs = map_of (rev kvs)"

text \<open>\<open>regenerate_colours\<close>. The globals \<open>HSV\<close> and \<open>colour_range\<close> are only read inside it.\<close>

definition regenerate_colours :: "game \<Rightarrow> game outcome" where
  "regenerate_colours g =
     (let n = length (moves g);
          HSV = map (\<lambda>x. (hue x n, 1, 1)) [0..<n]
      in bnd (colour_ranges HSV) (\<lambda>colour_range.
           Return (g\<lparr>controller_colours :=
                       dict_of (zip (map get_serial (moves g)) colour_range)\<rparr>)))"

section \<open>Timed phases\<close>

text \<open>\<open>move.set_leds(*c)\<close> takes exactly three arguments.\<close>

definition set_leds_star :: "move \<Rightarrow> int list \<Rightarrow> game \<Rightarrow> game outcome" where
  "set_leds_star m c g = (if length c = 3 then Return (emit [Set_leds m c] g) else Raises TypeError)"

definition drive :: "int list \<Rightarrow> int \<Rightarrow> move \<Rightarrow> event list" where
  "drive leds rumble othermove =
     [Poll othermove, Set_rumble othermove rumble, Set_leds othermove leds, Update_leds othermove]"

text \<open>
  The \<open>while time.time() < pause_time\<close> loop of \<open>sleep_controllers\<close>, over the coming clock
  readings.
\<close>

fun sleep_loop :: "rat \<Rightarrow> int list \<Rightarrow> int \<Rightarrow> move list \<Rightarrow> rat list \<Rightarrow> game \<Rightarrow> game outcome" where
  "sleep_loop pause_time leds rumble ms [] g = Unfinished"
| "sleep_loop pause_time leds rumble ms (now # later) g =
     (if now < pause_time
      then sleep_loop pause_time leds rumble ms later (emit (concat (map (drive leds rumble) ms)) g)
      else Return (g\<lparr>clock := later\<rparr>))"

definition sleep_controllers :: "rat \<Rightarrow> int list \<Rightarrow> int \<Rightarrow> move list \<Rightarrow> game \<Rightarrow> game outcome" where
  "sleep_controllers sleep leds rumble ms g =
     (case clock g of
        [] \<Rightarrow> Unfinished
      | now # later \<Rightarrow> sleep_loop (fadd now sleep) leds rumble ms later g)"

section \<open>Dict operations on the contestant set\<close>

definition dict_keys :: "('k \<times> 'v) list \<Rightarrow> 'k list" where
  "dict_keys d = map fst d"

text \<open>\<open>d[k] = v\<close>: a new key goes to the end, an old key keeps its place.\<close>

definition dict_set :: "'k \<Rightarrow> 'v \<Rightarrow> ('k \<times> 'v) list \<Rightarrow> ('k \<times> 'v) list" where
  "dict_set k v d =
     (if k \<in> set (dict_keys d) then map (\<lambda>(k', v'). if k' = k then (k', v) else (k', v')) d
      else d @ [(k, v)])"

text \<open>\<open>del d[k]\<close>: \<open>None\<close> stands for the KeyError of a missing key.\<close>

definition dict_del :: "'k \<Rightarrow> ('k \<times> 'v) list \<Rightarrow> ('k \<times> 'v) list option" where
  "dict_del k d =
     (if k \<in> set (dict_keys d) then Some (filter (\<lambda>(k', v'). k' \<noteq> k) d) else None)"

section \<open>Lobby\<close>

text \<open>
  What the outside world presents during one tick of a loop: the devices the transport
  holds when the tick enumerates them (line 65), what a poll of each device yields, and
  the devices the transport holds when the connected count is compared with the roster
  (lines 136 and 239).
\<close>

record world =
  connected_first :: "move list"
  sense :: "move \<Rightarrow> reading"
  connected_later :: "move list"

definition battery_colour :: "int \<Rightarrow> int list" where
  "battery_colour level =
     (if level = 5 then [0, 255, 0]
      else if level = 4 then [128, 200, 0]
      else if level = 3 then [255, 255, 0]
      else [255, 0, 0])"

text \<open>
  Lines 94 to 126, after a successful poll: the device may join, shows whether it has
  joined, its buttons are read, and the battery display may replace the colour.
\<close>

definition lobby_inputs :: "reading \<Rightarrow> move \<Rightarrow> game \<Rightarrow> game" where
  "lobby_inputs r m g1 =
     (let serial = get_serial m;
          g2 = (if serial \<notin> set (dict_keys (controllers_alive g1)) \<and> 100 < get_trigger r
                then g1\<lparr>controllers_alive := dict_set serial m (controllers_alive g1)\<rparr>
                else g1);
          g3 = (if serial \<in> set (dict_keys (controllers_alive g2))
                then emit [Set_leds m [255, 255, 255]] g2
                else emit [Set_leds m [0, 0, 0]] g2);
          g4 = (if get_buttons r = 2048 then g3\<lparr>start := True\<rparr> else g3);
          g5 = (if get_buttons r = 32 then g4\<lparr>battery_pressed := True, battery := True\<rparr>
                else g4);
          g6 = (if battery g5 then emit [Set_leds m (battery_colour (get_battery r))] g5 else g5)
      in emit [Set_rumble m 0, Update_leds m] g6)"

text \<open>Lines 93 to 130: a device that is already paired is polled; select disconnects it.\<close>

definition lobby_polled :: "reading \<Rightarrow> move \<Rightarrow> game \<Rightarrow> game outcome" where
  "lobby_polled r m g =
     bnd (poll_move m (poll r) g) (\<lambda>(ok, g1).
       if ok then
         (let g7 = lobby_inputs r m g1
          in if get_buttons r = 256 then disconnect_move m g7 else Return g7)
       else Return g1)"

text \<open>
  Lines 72 to 130 for one device. Concatenating the \<open>None\<close> serial with a string, in the
  Bluetooth branch, raises a TypeError.
\<close>

definition lobby_move :: "(move \<Rightarrow> reading) \<Rightarrow> move \<Rightarrow> game \<Rightarrow> game outcome" where
  "lobby_move sn m g =
     (if connection_type m = Conn_USB \<and> get_serial m \<notin> set (usb_paired_controllers g)
         \<and> get_serial m \<noteq> None
      then Return (emit [Pair m, Set_leds m [255, 255, 255], Update_leds m]
                     (g\<lparr>usb_paired_controllers := usb_paired_controllers g @ [get_serial m]\<rparr>))
      else if connection_type m = Conn_Bluetooth \<and> get_serial m \<notin> set (paired_controllers g)
      then (if get_serial m = None then Raises TypeError
            else Return (emit [Pair m, Set_leds m [255, 255, 255], Update_leds m]
                           (g\<lparr>paired_controllers := paired_controllers g @ [get_serial m]\<rparr>)))
      else lobby_polled (sn m) m g)"

text \<open>The \<open>for move in moves\<close> loop of the lobby, with its \<open>break\<close> on a failed initialisation.\<close>

fun lobby_moves :: "(move \<Rightarrow> reading) \<Rightarrow> move list \<Rightarrow> game \<Rightarrow> game outcome" where
  "lobby_moves sn [] g = Return g"
| "lobby_moves sn (m # ms) g =
     (if this m = None then Return (g\<lparr>moves := []\<rparr>)
      else bnd (lobby_move sn m g) (lobby_moves sn ms))"

text \<open>The two \<open>break\<close> conditions of lines 140 and 143.\<close>

definition lobby_exit :: "game \<Rightarrow> bool" where
  "lobby_exit g \<longleftrightarrow>
     (length (controllers_alive g) = length (moves g) \<and> 0 < length (controllers_alive g))
     \<or> (2 \<le> length (controllers_alive g) \<and> start g = True)"

text \<open>One pass of the inner \<open>while True\<close> (lines 64 to 144); the flag tells whether it breaks.\<close>

definition lobby_tick :: "world \<Rightarrow> game \<Rightarrow> (bool \<times> game) outcome" where
  "lobby_tick w g =
     (let g0 = g\<lparr>battery_pressed := False, moves := connected_first w\<rparr>
      in bnd (lobby_moves (sense w) (connected_first w) g0) (\<lambda>g1.
           let g2 = (if battery g1 \<and> \<not> battery_pressed g1 then g1\<lparr>battery := False\<rparr> else g1);
               g3 = (if length (connected_later w) \<noteq> length (moves g2)
                     then g2\<lparr>moves := connected_later w\<rparr> else g2)
           in Return (lobby_exit g3, g3)))"

fun lobby_loop :: "world list \<Rightarrow> game \<Rightarrow> game outcome" where
  "lobby_loop [] g = Unfinished"
| "lobby_loop (w # ws) g =
     bnd (lobby_tick w g) (\<lambda>(exit, g'). if exit then Return g' else lobby_loop ws g')"

text \<open>Lines 60 to 144.\<close>

definition lobby :: "world list \<Rightarrow> game \<Rightarrow> game outcome" where
  "lobby ws g = lobby_loop ws (g\<lparr>start := False, battery := False, battery_pressed := False\<rparr>)"


section \<open>Round\<close>

text \<open>The loop of line 163: each contestant is given its entry of \<open>controller_colours\<close>.\<close>

fun assign_colours :: "(string option \<times> move) list \<Rightarrow> game \<Rightarrow> game outcome" where
  "assign_colours [] g = Return g"
| "assign_colours ((serial, m) # rest) g =
     (case controller_colours g (get_serial m) of
        None \<Rightarrow> Raises KeyError
      | Some c \<Rightarrow> bnd (set_leds_star m c g) (assign_colours rest))"

text \<open>Lines 146 to 168; \<open>alive\<close> is \<open>controllers_alive.values()\<close>.\<close>

definition round_start :: "game \<Rightarrow> game outcome" where
  "round_start g =
     bnd (regenerate_colours g) (\<lambda>g.
       let alive = map snd (controllers_alive g)
       in bnd (sleep_controllers (1 / 2) [255, 255, 255] 0 alive g) (\<lambda>g.
          bnd (sleep_controllers (fl (3 / 10)) [255, 255, 255] 100 alive g) (\<lambda>g.
          bnd (sleep_controllers (3 / 4) [50, 0, 0] 0 alive g) (\<lambda>g.
          bnd (sleep_controllers (3 / 4) [50, 75, 0] 0 alive g) (\<lambda>g.
          bnd (sleep_controllers (3 / 4) [0, 50, 0] 0 alive g) (\<lambda>g.
          bnd (assign_colours (controllers_alive g) g) (\<lambda>g.
          Return (g\<lparr>move_last_values := Map.empty, running := True\<rparr>))))))))"

subsection \<open>Win sequence\<close>

definition buzz :: "move \<Rightarrow> event list" where
  "buzz othermove = [Set_rumble othermove 100, Poll othermove, Update_leds othermove]"

definition darken :: "move \<Rightarrow> event list" where
  "darken othermove = [Set_leds othermove [0, 0, 0], Poll othermove, Update_leds othermove]"

text \<open>
  The loop of lines 188 to 203. \<open>colour_range.append(colour_range.pop(0))\<close> moves the
  first colour to the end; \<open>colour_range[0]\<close> of an empty list raises an IndexError.
\<close>

fun win_loop :: "rat \<Rightarrow> move \<Rightarrow> int list list \<Rightarrow> move list \<Rightarrow> rat list \<Rightarrow> game \<Rightarrow> game outcome" where
  "win_loop pause_time m colour_range ms [] g = Unfinished"
| "win_loop pause_time m colour_range ms (now # later) g =
     (if now < pause_time
      then (case colour_range of
              [] \<Rightarrow> Raises IndexError
            | c # cs \<Rightarrow>
                bnd (set_leds_star m c g) (\<lambda>g1.
                  win_loop pause_time m (cs @ [c]) ms later
                    (emit ([Set_rumble m 100, Poll m, Update_leds m]
                           @ concat (map buzz ms) @ [Sleep (fl (1 / 100))]) g1)))
      else Return (g\<lparr>clock := later\<rparr>))"

text \<open>The events of one pass of the loop of lines 188 to 203, showing colour \<open>c\<close>.\<close>

definition win_step :: "move \<Rightarrow> move list \<Rightarrow> int list \<Rightarrow> event list" where
  "win_step m ms c =
     [Set_leds m c, Set_rumble m 100, Poll m, Update_leds m] @ concat (map buzz ms)
     @ [Sleep (fl (1 / 100))]"

text \<open>The 50 colours of the win animation, \<open>HSV = [(x*1.0/50, 0.9, 1) for x in range(50)]\<close>.\<close>

definition rainbow :: "int list list outcome" where
  "rainbow = colour_ranges (map (\<lambda>x. (hue x 50, fl (9 / 10), 1)) [0..<50])"

text \<open>Lines 174 to 206.\<close>

definition win :: "game \<Rightarrow> game outcome" where
  "win g =
     bnd rainbow (\<lambda>colour_range.
       case controllers_alive g of
         [] \<Rightarrow> Raises IndexError
       | (serial, m) # _ \<Rightarrow>
           (case clock g of
              [] \<Rightarrow> Unfinished
            | now # later \<Rightarrow>
                bnd (win_loop (fadd now 3) m colour_range (moves g) later
                       (emit (concat (map darken (moves g))) g))
                  (\<lambda>g1. Return (g1\<lparr>running := False, controllers_alive := []\<rparr>))))"

subsection \<open>Motion classification\<close>

datatype verdict = Alive | Warning | Eliminated | NoSample

text \<open>
  The decision of lines 214 to 229, on the stored \<open>move_last_values[serial]\<close> (if any) and
  the new \<open>total\<close> (here \<open>sample\<close>). The source has it inline; \<open>update_move\<close> below acts on it.
\<close>

definition classify :: "rat option \<Rightarrow> rat \<Rightarrow> verdict" where
  "classify baseline sample =
     (case baseline of
        None \<Rightarrow> NoSample
      | Some previous \<Rightarrow>
          let change = \<bar>fsub previous sample\<bar>
          in if fl (7 / 10) < change then Eliminated
             else if fl (2 / 10) < change then Warning
             else Alive)"

text \<open>
  \<open>sum([ax, ay, az])\<close> starts from the integer 0 and adds from left to right (as Python 2
  and Python 3 up to 3.11 do; the compensated summation of later versions is not modelled).
\<close>

definition sample_sum :: "rat \<times> rat \<times> rat \<Rightarrow> rat" where
  "sample_sum a = (case a of (ax, ay, az) \<Rightarrow> fadd (fadd (fadd 0 ax) ay) az)"

definition dimmed :: "int list \<Rightarrow> int list" where
  "dimmed c = map (\<lambda>v. py_int (fmul (py_float v) (fl (3 / 10)))) c"

text \<open>The feedback of lines 216 to 231 for one verdict.\<close>

definition feedback :: "verdict \<Rightarrow> string option \<Rightarrow> move \<Rightarrow> game \<Rightarrow> game outcome" where
  "feedback vd serial m g =
     (case vd of
        NoSample \<Rightarrow> Return g
      | Eliminated \<Rightarrow>
          (case dict_del serial (controllers_alive g) of
             None \<Rightarrow> Raises KeyError
           | Some d \<Rightarrow> Return ((emit [Set_leds m [0, 0, 0], Set_rumble m 100] g)
                                 \<lparr>controllers_alive := d\<rparr>))
      | Warning \<Rightarrow>
          (case controller_colours g (get_serial m) of
             None \<Rightarrow> Raises KeyError
           | Some c \<Rightarrow> set_leds_star m (dimmed c) g)
      | Alive \<Rightarrow>
          (case controller_colours g (get_serial m) of
             None \<Rightarrow> Raises KeyError
           | Some c \<Rightarrow> bnd (set_leds_star m c g) (\<lambda>g1. Return (emit [Set_rumble m 0] g1))))"

text \<open>Lines 210 to 234 for one contestant \<open>(serial, move)\<close> of the snapshot.\<close>

definition update_move :: "reading \<Rightarrow> string option \<Rightarrow> move \<Rightarrow> game \<Rightarrow> game outcome" where
  "update_move r serial m g =
     bnd (poll_move m (poll r) g) (\<lambda>(ok, g1).
       if ok then
         (let sample = sample_sum (get_accelerometer_frame r)
          in bnd (feedback (classify (move_last_values g1 serial) sample) serial m g1) (\<lambda>g2.
               Return ((emit [Update_leds m] g2)
                         \<lparr>move_last_values := (move_last_values g2)(serial \<mapsto> sample)\<rparr>)))
       else Return g1)"

text \<open>
  The \<open>for\<close> loop of lines 170 to 234 over the snapshot \<open>list(controllers_alive.items())\<close>;
  the win sequence ends it with \<open>break\<close>.
\<close>

fun pass_moves :: "(move \<Rightarrow> reading) \<Rightarrow> (string option \<times> move) list \<Rightarrow> game \<Rightarrow> game outcome" where
  "pass_moves sn [] g = Return g"
| "pass_moves sn ((serial, m) # rest) g =
     (if length (controllers_alive g) = 1 then win g
      else bnd (update_move (sn m) serial m g) (pass_moves sn rest))"

subsection \<open>Reconciliation\<close>

text \<open>
  The loop of lines 243 to 245 over \<open>controllers_alive.items()\<close>. In Python 2 that is a
  copied list. In Python 3 it is a view of the dict: after a deletion the next step of the
  iteration, also the one that would end it, raises
  \<open>RuntimeError: dictionary changed size during iteration\<close>.
\<close>

fun drop_vanished ::
  "string option list \<Rightarrow> (string option \<times> move) list \<Rightarrow> game \<Rightarrow> game outcome" where
  "drop_vanished available [] g = Return g"
| "drop_vanished available ((serial, m) # rest) g =
     (if serial \<notin> set available
      then (case dict_del serial (controllers_alive g) of
              None \<Rightarrow> Raises KeyError
            | Some d \<Rightarrow>
                if python3 g then Raises RuntimeError
                else drop_vanished available rest (g\<lparr>controllers_alive := d\<rparr>))
      else drop_vanished available rest g)"

text \<open>Lines 239 to 245.\<close>

definition reconcile :: "move list \<Rightarrow> game \<Rightarrow> game outcome" where
  "reconcile devices g =
     (if length devices \<noteq> length (moves g)
      then (let g1 = g\<lparr>moves := devices\<rparr>
            in drop_vanished (map get_serial (moves g1)) (controllers_alive g1) g1)
      else Return g)"

text \<open>One pass of \<open>while running\<close> (lines 170 to 249).\<close>

definition round_pass :: "world \<Rightarrow> game \<Rightarrow> game outcome" where
  "round_pass w g =
     bnd (pass_moves (sense w) (controllers_alive g) g) (\<lambda>g1.
       if running g1
       then bnd (reconcile (connected_later w) g1) (\<lambda>g2.
              Return (if length (moves g2) = 0 then g2\<lparr>running := False\<rparr> else g2))
       else Return g1)"

fun round_loop :: "world list \<Rightarrow> game \<Rightarrow> game outcome" where
  "round_loop [] g = (if running g then Unfinished else Return g)"
| "round_loop (w # ws) g =
     (if running g then bnd (round_pass w g) (round_loop ws) else Return g)"

section \<open>The program\<close>

text \<open>One pass of the outer \<open>while True\<close> (lines 60 to 249): a lobby, then a round.\<close>

definition play :: "world list \<times> world list \<Rightarrow> game \<Rightarrow> game outcome" where
  "play ws g = bnd (lobby (fst ws) g) (\<lambda>g1. bnd (round_start g1) (round_loop (snd ws)))"

text \<open>The outer loop, for as many passes as inputs are recorded.\<close>

fun main :: "(world list \<times> world list) list \<Rightarrow> game \<Rightarrow> game outcome" where
  "main [] g = Return g"
| "main (ws # rest) g = bnd (play ws g) (main rest)"

text \<open>The state after the module's top-level assignments (lines 11, 36, 37 and 56 to 58).\<close>

definition initial :: "bool \<Rightarrow> rat list \<Rightarrow> game" where
  "initial py3 readings =
     \<lparr>poll_failures = (\<lambda>serial. 0), controller_colours = Map.empty, paired_controllers = [],
      controllers_alive = [], usb_paired_controllers = [], moves = [], start = False,
      battery = False, battery_pressed = False, move_last_values = Map.empty, running = False,
      python3 = py3, clock = readings, trace = []\<rparr>"


section \<open>Descriptions used in the statements\<close>

text \<open>
  How a timed loop reads the clock: \<open>count_below\<close> gives the number of readings below the
  deadline before the first one that is not, and the readings left after that one;
  \<open>timed_phase\<close> does so for a loop that lasts \<open>sleep\<close> seconds from its first reading.
\<close>

fun count_below :: "rat \<Rightarrow> rat list \<Rightarrow> (nat \<times> rat list) option" where
  "count_below pause_time [] = None"
| "count_below pause_time (now # later) =
     (if now < pause_time
      then (case count_below pause_time later of None \<Rightarrow> None | Some (n, rest) \<Rightarrow> Some (Suc n, rest))
      else Some (0, later))"

definition timed_phase :: "rat \<Rightarrow> rat list \<Rightarrow> (nat \<times> rat list) option" where
  "timed_phase sleep readings =
     (case readings of [] \<Rightarrow> None | now # later \<Rightarrow> count_below (fadd now sleep) later)"

text \<open>The events of \<open>n\<close> passes of the loop of \<open>sleep_controllers\<close>.\<close>

definition phase :: "nat \<Rightarrow> int list \<Rightarrow> int \<Rightarrow> move list \<Rightarrow> event list" where
  "phase n leds rumble ms = concat (replicate n (concat (map (drive leds rumble) ms)))"

text \<open>The colour list that \<open>regenerate_colours\<close> builds for a roster of \<open>n\<close> devices.\<close>

definition palette :: "nat \<Rightarrow> int list list outcome" where
  "palette n = colour_ranges (map (\<lambda>x. (hue x n, 1, 1)) [0..<n])"

section \<open>The lobby's exit condition as the specification words it\<close>

text \<open>
  Following the specification, not the source: the lobby is left when all currently
  connected devices have joined and at least one exists, or when at least two have joined
  and the early-start flag is set.
\<close>

definition spec_lobby_exit :: "game \<Rightarrow> bool" where
  "spec_lobby_exit g \<longleftrightarrow>
     (set (map get_serial (moves g)) \<subseteq> set (dict_keys (controllers_alive g)) \<and> moves g \<noteq> [])
     \<or> (2 \<le> length (controllers_alive g) \<and> start g)"

section \<open>Example devices and inputs\<close>

definition device :: "nat \<Rightarrow> string \<Rightarrow> move" where
  "device n s = \<lparr>this = Some n, connection_type = Conn_Bluetooth, get_serial = Some s\<rparr>"

definition still :: reading where
  "still = \<lparr>poll = True, get_trigger = 0, get_buttons = 0, get_battery = 5,
            get_accelerometer_frame = (0, 0, 1)\<rparr>"

definition pulled :: reading where
  "pulled = still\<lparr>get_trigger := 255\<rparr>"

text \<open>
  Three lobby ticks. Devices A, B and C are paired; A pulls its trigger; A disappears from
  the transport and B pulls its trigger, while C never does and nobody presses start.
\<close>

definition vanish_lobby :: "world list" where
  "vanish_lobby =
     [\<lparr>connected_first = [device 1 ''A'', device 2 ''B'', device 3 ''C''], sense = (\<lambda>m. still),
       connected_later = [device 1 ''A'', device 2 ''B'', device 3 ''C'']\<rparr>,
      \<lparr>connected_first = [device 4 ''A'', device 5 ''B'', device 6 ''C''],
       sense = (\<lambda>m. if get_serial m = Some ''A'' then pulled else still),
       connected_later = [device 4 ''A'', device 5 ''B'', device 6 ''C'']\<rparr>,
      \<lparr>connected_first = [device 7 ''B'', device 8 ''C''],
       sense = (\<lambda>m. if get_serial m = Some ''B'' then pulled else still),
       connected_later = [device 7 ''B'', device 8 ''C'']\<rparr>]"

text \<open>
  A lobby tick in which the joined device A is no longer connected and the only connected
  device B, not joined, fails its poll or holds the select button with the trigger released.
\<close>

definition quiet_tick :: "bool \<Rightarrow> move list \<Rightarrow> world" where
  "quiet_tick ok later =
     \<lparr>connected_first = [device 2 ''B''],
      sense = (\<lambda>m. still\<lparr>poll := ok, get_buttons := 256\<rparr>),
      connected_later = later\<rparr>"

definition quiet_lobby :: "world list" where
  "quiet_lobby =
     [quiet_tick True [device 2 ''B'', device 3 ''C''],
      quiet_tick False [device 2 ''B'', device 3 ''C''],
      quiet_tick False [device 2 ''B'']]"

definition joined_A :: game where
  "joined_A = (initial True [])\<lparr>controllers_alive := [(Some ''A'', device 1 ''A'')],
                                paired_controllers := [Some ''A'', Some ''B'', Some ''C'']\<rparr>"

text \<open>A round under way with contestants A and B, and the same with A alone.\<close>

definition arena :: game where
  "arena = (initial True [0, 1, 2, 3, 9])
     \<lparr>controllers_alive := [(Some ''A'', device 1 ''A''), (Some ''B'', device 2 ''B'')],
      moves := [device 3 ''A'', device 4 ''B''],
      controller_colours := [Some ''A'' \<mapsto> [255, 0, 0], Some ''B'' \<mapsto> [0, 255, 255]],
      move_last_values := [Some ''A'' \<mapsto> 1],
      running := True\<rparr>"

definition survivor :: game where
  "survivor = arena\<lparr>controllers_alive := [(Some ''A'', device 1 ''A'')]\<rparr>"

text \<open>
  A device plugged in over USB whose serial cannot be read, and a lobby tick in which it is
  the only device and its poll fails.
\<close>

definition unnamed :: move where
  "unnamed = \<lparr>this = Some 0, connection_type = Conn_USB, get_serial = None\<rparr>"

definition dead_air :: world where
  "dead_air = \<lparr>connected_first = [unnamed], sense = (\<lambda>m. still\<lparr>poll := False\<rparr>),
               connected_later = [unnamed]\<rparr>"

text \<open>A reading with a sample sum of 2.\<close>

definition jerk :: reading where
  "jerk = still\<lparr>get_accelerometer_frame := (0, 0, 2)\<rparr>"

section \<open>Properties of the liveness tracker\<close>

lemma poll_move_success:
  "poll_move m True g =
     Return (True, g\<lparr>poll_failures := (poll_failures g)(get_serial m := 0),
                     trace := trace g @ [Poll m]\<rparr>)"
  by (simp add: poll_move_def emit_def Let_def)

lemma poll_move_failure:
  "poll_move m False g =
     (if 1000 < poll_failures g (get_serial m) + 1
      then (case get_serial m of
              None \<Rightarrow> Raises TypeError
            | Some s \<Rightarrow>
                Return (False, g\<lparr>poll_failures :=
                                    (poll_failures g)(get_serial m := poll_failures g (get_serial m) + 1),
                                  trace := trace g @ [Poll m, Disconnect s]\<rparr>))
      else Return (False, g\<lparr>poll_failures :=
                              (poll_failures g)(get_serial m := poll_failures g (get_serial m) + 1),
                            trace := trace g @ [Poll m]\<rparr>))"
  by (simp add: poll_move_def emit_def Let_def disconnect_move_def split: option.splits)

text \<open>What a returning \<open>poll_move\<close> leaves untouched.\<close>

lemma poll_move_frame:
  assumes "poll_move m ok g = Return (ok', g')"
  shows "ok' = ok" and "controllers_alive g' = controllers_alive g"
    and "move_last_values g' = move_last_values g"
    and "controller_colours g' = controller_colours g" and "moves g' = moves g"
    and "running g' = running g" and "clock g' = clock g" and "python3 g' = python3 g"
    and "start g' = start g" and "battery g' = battery g"
    and "battery_pressed g' = battery_pressed g"
    and "paired_controllers g' = paired_controllers g"
    and "usb_paired_controllers g' = usb_paired_controllers g"
proof -
  have "\<exists>pf t. ok' = ok \<and> g' = g\<lparr>poll_failures := pf, trace := t\<rparr>"
    using assms
    by (cases ok) (auto simp add: poll_move_success poll_move_failure split: if_splits option.splits)
  then obtain pf t where g': "ok' = ok" "g' = g\<lparr>poll_failures := pf, trace := t\<rparr>" by blast
  show "ok' = ok" by (rule g'(1))
  show "controllers_alive g' = controllers_alive g" "move_last_values g' = move_last_values g"
    "controller_colours g' = controller_colours g" "moves g' = moves g"
    "running g' = running g" "clock g' = clock g" "python3 g' = python3 g"
    "start g' = start g" "battery g' = battery g" "battery_pressed g' = battery_pressed g"
    "paired_controllers g' = paired_controllers g"
    "usb_paired_controllers g' = usb_paired_controllers g"
    by (simp_all add: g'(2))
qed

lemma poll_move_returns:
  "get_serial m \<noteq> None \<Longrightarrow> \<exists>g'. poll_move m ok g = Return (ok, g')"
  by (cases ok) (auto simp add: poll_move_success poll_move_failure)

lemma disconnect_move_frame:
  "disconnect_move m g = Return g' \<Longrightarrow> controllers_alive g' = controllers_alive g"
  by (auto simp add: disconnect_move_def emit_def split: option.splits)

lemma poll_move_with_serial:
  assumes "get_serial m = Some s"
  shows "poll_move m True g =
           Return (True, g\<lparr>poll_failures := (poll_failures g)(Some s := 0), trace := trace g @ [Poll m]\<rparr>)"
    and "poll_move m False g =
           Return (False, g\<lparr>poll_failures := (poll_failures g)(Some s := poll_failures g (Some s) + 1),
                             trace := trace g @ Poll m # (if 1000 < poll_failures g (Some s) + 1
                                                          then [Disconnect s] else [])\<rparr>)"
  using assms by (simp_all add: poll_move_success poll_move_failure)

lemma failed_polls_quiet:
  assumes "poll_failures g (get_serial m) = 0" and "n \<le> 1000"
  shows "\<exists>g'. failed_polls n m g = Return g' \<and> poll_failures g' (get_serial m) = int n
     \<and> trace g' = trace g @ replicate n (Poll m)"
  using assms(2)
proof (induction n)
  case 0
  with assms(1) show ?case by simp
next
  case (Suc n)
  then obtain g1 where g1: "failed_polls n m g = Return g1" "poll_failures g1 (get_serial m) = int n"
    "trace g1 = trace g @ replicate n (Poll m)" by auto
  from Suc.prems g1(2) have "\<not> 1000 < poll_failures g1 (get_serial m) + 1" by simp
  then show ?case
    using g1 by (simp add: poll_move_failure replicate_append_same)
qed

lemma failed_polls_1001:
  assumes "poll_failures g (get_serial m) = 0"
  shows "failed_polls 1001 m g =
     (case get_serial m of
        None \<Rightarrow> Raises TypeError
      | Some s \<Rightarrow> (case failed_polls 1000 m g of
                     Return g1 \<Rightarrow> Return (g1\<lparr>poll_failures := (poll_failures g1)(Some s := 1001),
                                            trace := trace g1 @ [Poll m, Disconnect s]\<rparr>)
                   | Raises e \<Rightarrow> Raises e | Unfinished \<Rightarrow> Unfinished))"
proof -
  from failed_polls_quiet [OF assms, of 1000] obtain g1 where
    g1: "failed_polls 1000 m g = Return g1" "poll_failures g1 (get_serial m) = 1000" by auto
  have "failed_polls 1001 m g = bnd (failed_polls 1000 m g) (\<lambda>g1. bnd (poll_move m False g1) (\<lambda>(ok, g2). Return g2))"
    by (simp add: eval_nat_numeral)
  with g1 show ?thesis
    by (simp add: poll_move_failure split: option.splits)
qed

lemma unnamed_tick:
  assumes "controllers_alive g = []" and "poll_failures g None < 1000"
  shows "\<exists>g'. lobby_tick dead_air g = Return (False, g') \<and> controllers_alive g' = []
     \<and> poll_failures g' None = poll_failures g None + 1"
  using assms
  by (simp add: lobby_tick_def dead_air_def unnamed_def lobby_move_def lobby_polled_def
      poll_move_failure still_def lobby_exit_def Let_def)

lemma unnamed_tick_raises:
  assumes "1000 \<le> poll_failures g None"
  shows "lobby_tick dead_air g = Raises TypeError"
  using assms
  by (simp add: lobby_tick_def dead_air_def unnamed_def lobby_move_def lobby_polled_def
      poll_move_failure still_def Let_def)

lemma unnamed_loop:
  "controllers_alive g = [] \<Longrightarrow> poll_failures g None + int k = 1000
   \<Longrightarrow> lobby_loop (replicate k dead_air @ dead_air # rest) g = Raises TypeError"
proof (induction k arbitrary: g)
  case 0
  then show ?case by (simp add: unnamed_tick_raises)
next
  case (Suc k)
  then have "poll_failures g None < 1000" by simp
  from unnamed_tick [OF Suc.prems(1) this] obtain g' where
    g': "lobby_tick dead_air g = Return (False, g')" "controllers_alive g' = []"
      "poll_failures g' None = poll_failures g None + 1" by blast
  with Suc.prems have "lobby_loop (replicate k dead_air @ dead_air # rest) g' = Raises TypeError"
    by (intro Suc.IH) simp_all
  with g'(1) show ?case by simp
qed

text \<open>
  C3. For a device with a serial, \<open>poll_move\<close> does what is claimed
  (\<open>poll_move_with_serial\<close>, \<open>failed_polls_quiet\<close>, \<open>failed_polls_1001\<close>). For a device
  without one it does not: a device plugged in over USB whose serial is \<open>None\<close> passes the
  guard of line 75 and is polled; 1000 failed polls in a row return, and the 1001st raises
  a TypeError in \<open>disconnect_move\<close> instead of returning false. So does a lobby of 1001
  ticks in which this device is the only one and never answers.
\<close>

theorem poll_move_raises_without_serial:
  "(case failed_polls 1000 unnamed (initial True []) of
      Return g \<Rightarrow> poll_failures g None = 1000 \<and> trace g = replicate 1000 (Poll unnamed)
    | _ \<Rightarrow> False)
   \<and> (case failed_polls 1001 unnamed (initial True []) of Raises e \<Rightarrow> e = TypeError | _ \<Rightarrow> False)
   \<and> (case lobby (replicate 1001 dead_air) (initial True []) of
         Raises e \<Rightarrow> e = TypeError | _ \<Rightarrow> False)"
proof -
  have z: "poll_failures (initial True []) (get_serial unnamed) = 0"
    by (simp add: initial_def)
  have n: "get_serial unnamed = None" by (simp add: unnamed_def)
  from failed_polls_quiet [OF z, of 1000] n have a:
    "case failed_polls 1000 unnamed (initial True []) of
      Return g \<Rightarrow> poll_failures g None = 1000 \<and> trace g = replicate 1000 (Poll unnamed)
    | _ \<Rightarrow> False"
    by (auto simp add: initial_def)
  have b: "failed_polls 1001 unnamed (initial True []) = Raises TypeError"
    using failed_polls_1001 [OF z] n by simp
  have "replicate 1001 dead_air = replicate 1000 dead_air @ dead_air # []"
    by (simp add: replicate_append_same [symmetric] eval_nat_numeral)
  then have c: "lobby (replicate 1001 dead_air) (initial True []) = Raises TypeError"
    using unnamed_loop [of "(initial True [])\<lparr>start := False, battery := False, battery_pressed := False\<rparr>" 1000 "[]"]
    by (simp add: lobby_def initial_def)
  show ?thesis using a b c by simp
qed


section \<open>Properties of the palette generator\<close>

lemma hsv_to_rgb_three: "\<exists>a b c. hsv_to_rgb h s v = Some [a, b, c]"
proof -
  define i where "i = py_int (fmul h 6) mod 6"
  have "0 \<le> i" "i < 6" by (simp_all add: i_def)
  then consider "i = 0" | "i = 1" | "i = 2" | "i = 3" | "i = 4" | "i = 5" by linarith
  then show ?thesis
    by cases (simp_all add: hsv_to_rgb_def Let_def i_def)
qed

lemma colour_ranges_returns:
  "\<exists>cs. colour_ranges hs = Return cs \<and> length cs = length hs \<and> (\<forall>c \<in> set cs. length c = 3)"
proof (induction hs)
  case Nil
  show ?case by simp
next
  case (Cons x hs)
  obtain h s v where x: "x = (h, s, v)" by (cases x)
  obtain a b c where "hsv_to_rgb h s v = Some [a, b, c]" using hsv_to_rgb_three by blast
  with Cons x show ?case by auto
qed

lemma rainbow_returns: "\<exists>cs. rainbow = Return cs \<and> length cs = 50 \<and> (\<forall>c \<in> set cs. length c = 3)"
  using colour_ranges_returns [of "map (\<lambda>x. (hue x 50, fl (9 / 10), 1)) [0..<50]"]
  by (simp add: rainbow_def)

lemma colour_ranges_nth:
  "\<exists>cs. colour_ranges hs = Return cs \<and> length cs = length hs
     \<and> (\<forall>i < length hs. \<exists>rgb. (case hs ! i of (h, s, v) \<Rightarrow> hsv_to_rgb h s v) = Some rgb
            \<and> length rgb = 3 \<and> cs ! i = map py_int rgb)"
proof (induction hs)
  case Nil
  show ?case by simp
next
  case (Cons x hs)
  obtain h s v where x: "x = (h, s, v)" by (cases x)
  obtain a b c where rgb: "hsv_to_rgb h s v = Some [a, b, c]" using hsv_to_rgb_three by blast
  from Cons obtain cs where cs: "colour_ranges hs = Return cs" "length cs = length hs"
    "\<forall>i < length hs. \<exists>rgb. (case hs ! i of (h, s, v) \<Rightarrow> hsv_to_rgb h s v) = Some rgb
            \<and> length rgb = 3 \<and> cs ! i = map py_int rgb"
    by blast
  have "\<exists>rgb'. (case (x # hs) ! i of (h, s, v) \<Rightarrow> hsv_to_rgb h s v) = Some rgb'
            \<and> length rgb' = 3 \<and> (map py_int [a, b, c] # cs) ! i = map py_int rgb'"
    if "i < length (x # hs)" for i
    using that cs(3) x rgb by (cases i) auto
  with cs(1,2) x rgb show ?case by simp
qed

lemma palette_nth:
  "\<exists>cs. palette n = Return cs \<and> length cs = n
     \<and> (\<forall>i < n. \<exists>rgb. hsv_to_rgb (hue i n) 1 1 = Some rgb \<and> length rgb = 3
                      \<and> cs ! i = map py_int rgb)"
  using colour_ranges_nth [of "map (\<lambda>x. (hue x n, 1, 1)) [0..<n]"]
  by (simp add: palette_def)

lemma dict_of_zip_nth:
  assumes "length ks = length vs" and "distinct ks" and "i < length ks"
  shows "dict_of (zip ks vs) (ks ! i) = Some (vs ! i)"
proof -
  let ?j = "length ks - Suc i"
  have "map_of (zip (rev ks) (rev vs)) (rev ks ! ?j) = Some (rev vs ! ?j)"
    by (rule map_of_zip_nth) (use assms in simp_all)
  moreover have "rev ks ! ?j = ks ! i" "rev vs ! ?j = vs ! i"
    using assms by (simp_all add: rev_nth)
  ultimately show ?thesis
    using assms(1) by (simp add: dict_of_def zip_rev)
qed

lemma dict_of_zip_in:
  assumes "length ks = length vs" and "k \<in> set ks"
  shows "\<exists>v \<in> set vs. dict_of (zip ks vs) k = Some v"
proof -
  from assms have "\<exists>y. map_of (zip (rev ks) (rev vs)) k = Some y"
    using map_of_zip_is_Some [of "rev ks" "rev vs" k] by simp
  then obtain y where y: "map_of (zip (rev ks) (rev vs)) k = Some y" ..
  then have "(k, y) \<in> set (zip (rev ks) (rev vs))" by (rule map_of_SomeD)
  then have "y \<in> set vs" by (auto dest: set_zip_rightD)
  with y assms(1) show ?thesis by (auto simp add: dict_of_def zip_rev)
qed

lemma regenerate_colours_eq:
  "palette (length (moves g)) = Return cs
   \<Longrightarrow> regenerate_colours g =
       Return (g\<lparr>controller_colours := dict_of (zip (map get_serial (moves g)) cs)\<rparr>)"
  by (simp add: regenerate_colours_def palette_def Let_def)

text \<open>
  C9. \<open>hsv_to_rgb\<close> never runs off its end: for every hue, saturation and value (so
  also for all of them in the interval from 0 to 1) it returns a list of three elements,
  because it returns at once when \<open>s = 0\<close> and otherwise \<open>i % 6\<close> is one of 0 to 5.
\<close>

theorem hsv_to_rgb_total: "\<exists>a b c. hsv_to_rgb h s v = Some [a, b, c]"
  by (rule hsv_to_rgb_three)

section \<open>Properties of the motion classifier\<close>

lemma thresholds_ordered: "fl (2 / 10) < fl (7 / 10)"
  by code_simp

text \<open>
  C1. The verdict is a function of the stored baseline and the new sample sum alone. With
  \<open>change\<close> the computed \<open>abs(baseline - total)\<close>, it is Eliminated when \<open>change > 0.7\<close>,
  Warning when \<open>0.2 < change \<le> 0.7\<close> and Alive when \<open>change \<le> 0.2\<close> (the two constants
  being the floats that the literals denote). At baseline 1.0 the sample sums 1.9, 1.25 and
  1.05 give Eliminated, Warning and Alive.
\<close>

theorem classify_thresholds:
  "(fl (7 / 10) < \<bar>fsub b t\<bar> \<longrightarrow> classify (Some b) t = Eliminated)
   \<and> (fl (2 / 10) < \<bar>fsub b t\<bar> \<and> \<bar>fsub b t\<bar> \<le> fl (7 / 10) \<longrightarrow> classify (Some b) t = Warning)
   \<and> (\<bar>fsub b t\<bar> \<le> fl (2 / 10) \<longrightarrow> classify (Some b) t = Alive)
   \<and> classify (Some 1) (fl (19 / 10)) = Eliminated
   \<and> classify (Some 1) (fl (5 / 4)) = Warning
   \<and> classify (Some 1) (fl (105 / 100)) = Alive"
proof -
  have "classify (Some 1) (fl (19 / 10)) = Eliminated" by code_simp
  moreover have "classify (Some 1) (fl (5 / 4)) = Warning" by code_simp
  moreover have "classify (Some 1) (fl (105 / 100)) = Alive" by code_simp
  ultimately show ?thesis
    using thresholds_ordered by (auto simp add: classify_def Let_def)
qed

theorem classify_thresholds_witness:
  "fl (7 / 10) < \<bar>fsub 1 (fl (19 / 10))\<bar>
   \<and> classify (Some 1) (fl (19 / 10)) = Eliminated
   \<and> fl (2 / 10) < \<bar>fsub 2 (fl (5 / 2))\<bar> \<and> \<bar>fsub 2 (fl (5 / 2))\<bar> \<le> fl (7 / 10)
   \<and> classify (Some 2) (fl (5 / 2)) = Warning
   \<and> \<bar>fsub 3 (fl (31 / 10))\<bar> \<le> fl (2 / 10)
   \<and> classify (Some 3) (fl (31 / 10)) = Alive"
proof -
  have a: "fl (7 / 10) < \<bar>fsub 1 (fl (19 / 10))\<bar>" by code_simp
  have b: "fl (2 / 10) < \<bar>fsub 2 (fl (5 / 2))\<bar> \<and> \<bar>fsub 2 (fl (5 / 2))\<bar> \<le> fl (7 / 10)" by code_simp
  have c: "\<bar>fsub 3 (fl (31 / 10))\<bar> \<le> fl (2 / 10)" by code_simp
  show ?thesis
    using a b c classify_thresholds [of 1 "fl (19 / 10)"] classify_thresholds [of 2 "fl (5 / 2)"]
      classify_thresholds [of 3 "fl (31 / 10)"]
    by blast
qed


section \<open>Properties of the lobby\<close>

lemma lobby_inputs_alive:
  "controllers_alive (lobby_inputs r m g) =
     (if get_serial m \<notin> set (dict_keys (controllers_alive g)) \<and> 100 < get_trigger r
      then controllers_alive g @ [(get_serial m, m)] else controllers_alive g)"
  by (simp add: lobby_inputs_def emit_def Let_def dict_set_def)

lemma lobby_polled_alive:
  assumes "lobby_polled r m g = Return g'"
  shows "controllers_alive g' =
     (if poll r \<and> get_serial m \<notin> set (dict_keys (controllers_alive g)) \<and> 100 < get_trigger r
      then controllers_alive g @ [(get_serial m, m)] else controllers_alive g)"
proof -
  from assms obtain ok g1 where p: "poll_move m (poll r) g = Return (ok, g1)"
    by (cases "poll_move m (poll r) g") (auto simp add: lobby_polled_def)
  note f = poll_move_frame(1,2) [OF p]
  show ?thesis
  proof (cases "poll r")
    case False
    with assms p f show ?thesis by (simp add: lobby_polled_def)
  next
    case True
    with assms p f have "disconnect_move m (lobby_inputs r m g1) = Return g' \<or> g' = lobby_inputs r m g1"
      by (auto simp add: lobby_polled_def Let_def split: if_splits)
    then have "controllers_alive g' = controllers_alive (lobby_inputs r m g1)"
      by (auto dest: disconnect_move_frame)
    with True f show ?thesis by (simp add: lobby_inputs_alive)
  qed
qed

lemma lobby_move_alive:
  "lobby_move sn m g = Return g' \<Longrightarrow> prefix (controllers_alive g) (controllers_alive g')"
  by (auto simp add: lobby_move_def emit_def split: if_splits dest!: lobby_polled_alive)

lemma lobby_moves_alive:
  "lobby_moves sn ms g = Return g' \<Longrightarrow> prefix (controllers_alive g) (controllers_alive g')"
proof (induction ms arbitrary: g)
  case Nil
  then show ?case by simp
next
  case (Cons m ms)
  show ?case
  proof (cases "this m = None")
    case True
    with Cons.prems show ?thesis by auto
  next
    case False
    with Cons.prems obtain g1
      where g1: "lobby_move sn m g = Return g1" "lobby_moves sn ms g1 = Return g'"
      by (cases "lobby_move sn m g") auto
    from lobby_move_alive [OF g1(1)] Cons.IH [OF g1(2)] show ?thesis
      by (rule prefix_order.trans)
  qed
qed

lemma lobby_tick_alive:
  assumes "lobby_tick w g = Return (ex, g')"
  shows "prefix (controllers_alive g) (controllers_alive g')"
proof -
  let ?g0 = "g\<lparr>battery_pressed := False, moves := connected_first w\<rparr>"
  from assms obtain g1 where g1: "lobby_moves (sense w) (connected_first w) ?g0 = Return g1"
    and g': "controllers_alive g' = controllers_alive g1"
    by (cases "lobby_moves (sense w) (connected_first w) ?g0")
       (auto simp add: lobby_tick_def Let_def split: if_splits)
  from lobby_moves_alive [OF g1] g' show ?thesis by simp
qed

lemma lobby_loop_alive:
  "lobby_loop ws g = Return g' \<Longrightarrow> prefix (controllers_alive g) (controllers_alive g')"
proof (induction ws arbitrary: g)
  case Nil
  then show ?case by simp
next
  case (Cons w ws)
  from Cons.prems obtain ex g1 where t: "lobby_tick w g = Return (ex, g1)"
    by (cases "lobby_tick w g") auto
  show ?case
  proof (cases ex)
    case True
    with Cons.prems t have "g' = g1" by simp
    with lobby_tick_alive [OF t] show ?thesis by simp
  next
    case False
    with Cons.prems t have "lobby_loop ws g1 = Return g'" by simp
    from lobby_tick_alive [OF t] Cons.IH [OF this] show ?thesis
      by (rule prefix_order.trans)
  qed
qed

lemma lobby_polled_returns:
  assumes "get_serial m \<noteq> None"
  shows "\<exists>g'. lobby_polled r m g = Return g'"
proof -
  from poll_move_returns [OF assms] obtain g1
    where "poll_move m (poll r) g = Return (poll r, g1)" by blast
  with assms show ?thesis
    by (auto simp add: lobby_polled_def Let_def disconnect_move_def)
qed

lemma lobby_move_returns: "get_serial m \<noteq> None \<Longrightarrow> \<exists>g'. lobby_move sn m g = Return g'"
  using lobby_polled_returns [of m "sn m" g] by (auto simp add: lobby_move_def)

lemma lobby_moves_returns:
  "\<forall>m \<in> set ms. get_serial m \<noteq> None \<Longrightarrow> \<exists>g'. lobby_moves sn ms g = Return g'"
proof (induction ms arbitrary: g)
  case Nil
  then show ?case by simp
next
  case (Cons m ms)
  then obtain g1 where "lobby_move sn m g = Return g1"
    using lobby_move_returns [of m sn g] by auto
  with Cons show ?case by simp
qed

lemma lobby_tick_returns:
  assumes "\<forall>m \<in> set (connected_first w). get_serial m \<noteq> None"
  shows "\<exists>ex g'. lobby_tick w g = Return (ex, g')"
proof -
  obtain g1 where "lobby_moves (sense w) (connected_first w)
                     (g\<lparr>battery_pressed := False, moves := connected_first w\<rparr>) = Return g1"
    using lobby_moves_returns [OF assms] by blast
  then show ?thesis by (simp add: lobby_tick_def Let_def)
qed

text \<open>
  C10. In the lobby the joined set only grows. Whatever a lobby tick is given (released
  triggers, failed polls, a select press that disconnects, devices gone from the roster),
  the entries of \<open>controllers_alive\<close> before the tick are still there after it, in the same
  order, with the newly joined ones appended; so it is for a whole lobby. A tick returns
  whenever every enumerated device has a serial.
\<close>

theorem lobby_joined_set_grows:
  "(\<forall>ex g'. lobby_tick w g = Return (ex, g')
       \<longrightarrow> prefix (controllers_alive g) (controllers_alive g'))
   \<and> (\<forall>g'. lobby ws g = Return g' \<longrightarrow> prefix (controllers_alive g) (controllers_alive g'))
   \<and> ((\<forall>m \<in> set (connected_first w). get_serial m \<noteq> None)
        \<longrightarrow> (\<exists>ex g'. lobby_tick w g = Return (ex, g')))"
proof -
  have "prefix (controllers_alive g) (controllers_alive g')" if "lobby ws g = Return g'" for g'
    using lobby_loop_alive [of ws "g\<lparr>start := False, battery := False, battery_pressed := False\<rparr>" g']
      that by (simp add: lobby_def)
  then show ?thesis
    using lobby_tick_alive lobby_tick_returns by blast
qed

theorem lobby_joined_set_grows_witness:
  "(\<exists>ex g'. lobby_tick (hd quiet_lobby) joined_A = Return (ex, g')
       \<and> prefix [(Some ''A'', device 1 ''A'')] (controllers_alive g'))
   \<and> (\<exists>g'. lobby quiet_lobby joined_A = Return g'
       \<and> prefix [(Some ''A'', device 1 ''A'')] (controllers_alive g'))"
proof -
  have s: "\<forall>m \<in> set (connected_first (hd quiet_lobby)). get_serial m \<noteq> None"
    by (simp add: quiet_lobby_def quiet_tick_def device_def)
  have a: "controllers_alive joined_A = [(Some ''A'', device 1 ''A'')]"
    by (simp add: joined_A_def)
  have "case lobby quiet_lobby joined_A of Return g' \<Rightarrow> True | _ \<Rightarrow> False"
    by code_simp
  then obtain g2 where l: "lobby quiet_lobby joined_A = Return g2"
    by (cases "lobby quiet_lobby joined_A") auto
  show ?thesis
    using s a l lobby_joined_set_grows [of "hd quiet_lobby" joined_A quiet_lobby]
    by metis
qed

lemma lobby_exit_agrees:
  assumes "distinct (map get_serial (moves g))"
    and "distinct (dict_keys (controllers_alive g))"
    and "set (dict_keys (controllers_alive g)) \<subseteq> set (map get_serial (moves g))"
  shows "lobby_exit g \<longleftrightarrow> spec_lobby_exit g"
proof -
  let ?k = "dict_keys (controllers_alive g)" and ?s = "map get_serial (moves g)"
  have lk: "length (controllers_alive g) = card (set ?k)"
    using distinct_card [OF assms(2)] by (simp add: dict_keys_def)
  have ls: "length (moves g) = card (set ?s)"
    using distinct_card [OF assms(1)] by simp
  have "card (set ?k) = card (set ?s) \<longleftrightarrow> set ?s \<subseteq> set ?k"
  proof
    assume "card (set ?k) = card (set ?s)"
    with assms(3) have "set ?k = set ?s"
      by (intro card_subset_eq) (rule finite_set)
    then show "set ?s \<subseteq> set ?k" by (rule equalityD2)
  next
    assume "set ?s \<subseteq> set ?k"
    with assms(3) have "set ?k = set ?s" by (rule subset_antisym)
    then show "card (set ?k) = card (set ?s)" by (rule arg_cong)
  qed
  then have "length (controllers_alive g) = length (moves g) \<longleftrightarrow> set ?s \<subseteq> set ?k"
    using lk ls by simp
  moreover have "0 < length (controllers_alive g) \<longleftrightarrow> moves g \<noteq> []"
    if "length (controllers_alive g) = length (moves g)"
    using that by auto
  ultimately show ?thesis
    unfolding lobby_exit_def spec_lobby_exit_def by auto
qed

text \<open>
  C5. The source leaves the lobby when the number of joined devices equals the number of
  connected devices, which is not the same as every connected device having joined. After
  the three ticks of \<open>vanish_lobby\<close> the lobby is left with A and B joined while the
  connected devices are B and C: C has not joined and start was never pressed.
\<close>

theorem lobby_left_with_unjoined_device:
  "case lobby vanish_lobby (initial True []) of
     Return g \<Rightarrow> dict_keys (controllers_alive g) = [Some ''A'', Some ''B'']
                \<and> map get_serial (moves g) = [Some ''B'', Some ''C'']
                \<and> start g = False \<and> lobby_exit g \<and> \<not> spec_lobby_exit g
   | _ \<Rightarrow> False"
  by code_simp


section \<open>Properties of the round start\<close>

lemma sleep_loop_eq:
  "sleep_loop pt leds rumble ms ts g =
     (case count_below pt ts of
        None \<Rightarrow> Unfinished
      | Some (n, rest) \<Rightarrow>
          Return (g\<lparr>clock := rest,
                    trace := trace g @ phase n leds rumble ms\<rparr>))"
proof (induction ts arbitrary: g)
  case Nil
  show ?case by simp
next
  case (Cons t ts)
  show ?case
  proof (cases "t < pt")
    case True
    then show ?thesis
      by (simp add: Cons.IH emit_def phase_def split: option.splits)
  next
    case False
    then show ?thesis by (simp add: phase_def)
  qed
qed

lemma sleep_controllers_eq:
  "sleep_controllers sleep leds rumble ms g =
     (case timed_phase sleep (clock g) of
        None \<Rightarrow> Unfinished
      | Some (n, rest) \<Rightarrow>
          Return (g\<lparr>clock := rest,
                    trace := trace g @ phase n leds rumble ms\<rparr>))"
  by (simp add: sleep_controllers_def timed_phase_def sleep_loop_eq split: list.splits)

lemma assign_colours_eq:
  assumes "\<forall>x \<in> set cs. \<exists>c. controller_colours g (get_serial (snd x)) = Some c \<and> length c = 3"
  shows "assign_colours cs g =
     Return (g\<lparr>trace := trace g @ map (\<lambda>x. Set_leds (snd x) (the (controller_colours g (get_serial (snd x))))) cs\<rparr>)"
  using assms
proof (induction cs arbitrary: g)
  case Nil
  show ?case by simp
next
  case (Cons x cs)
  obtain s m where x: "x = (s, m)" by (cases x)
  from Cons.prems x obtain c where
    c: "controller_colours g (get_serial m) = Some c" "length c = 3" by auto
  let ?g1 = "emit [Set_leds m c] g"
  have "\<forall>x \<in> set cs. \<exists>c. controller_colours ?g1 (get_serial (snd x)) = Some c \<and> length c = 3"
    using Cons.prems by (simp add: emit_def)
  from Cons.IH [OF this] show ?case using c x by (simp add: set_leds_star_def emit_def)
qed

lemma assign_colours_key_error:
  assumes "x \<in> set cs" and "controller_colours g (get_serial (snd x)) = None"
    and "\<forall>x \<in> set cs. \<forall>c. controller_colours g (get_serial (snd x)) = Some c \<longrightarrow> length c = 3"
  shows "assign_colours cs g = Raises KeyError"
  using assms
proof (induction cs arbitrary: g)
  case Nil
  then show ?case by simp
next
  case (Cons y cs)
  obtain s' m' where y: "y = (s', m')" by (cases y)
  show ?case
  proof (cases "controller_colours g (get_serial m')")
    case None
    with y show ?thesis by simp
  next
    case (Some c)
    let ?g1 = "emit [Set_leds m' c] g"
    from Some Cons.prems y have in_cs: "x \<in> set cs" and len: "length c = 3" by auto
    have "controller_colours ?g1 (get_serial (snd x)) = None"
      "\<forall>x \<in> set cs. \<forall>c. controller_colours ?g1 (get_serial (snd x)) = Some c \<longrightarrow> length c = 3"
      using Cons.prems by (simp_all add: emit_def)
    from Cons.IH [OF in_cs this] show ?thesis using Some y len by (simp add: set_leds_star_def)
  qed
qed


lemma round_start_eq:
  assumes pal: "palette (length (moves g)) = Return cs"
    and t1: "timed_phase (1 / 2) (clock g) = Some (n1, c1)"
    and t2: "timed_phase (fl (3 / 10)) c1 = Some (n2, c2)"
    and t3: "timed_phase (3 / 4) c2 = Some (n3, c3)"
    and t4: "timed_phase (3 / 4) c3 = Some (n4, c4)"
    and t5: "timed_phase (3 / 4) c4 = Some (n5, c5)"
    and roster: "\<forall>x \<in> set (controllers_alive g). get_serial (snd x) \<in> set (map get_serial (moves g))"
  shows "round_start g =
     Return (g\<lparr>controller_colours := dict_of (zip (map get_serial (moves g)) cs),
               clock := c5,
               trace := trace g
                 @ phase n1 [255, 255, 255] 0 (map snd (controllers_alive g))
                 @ phase n2 [255, 255, 255] 100 (map snd (controllers_alive g))
                 @ phase n3 [50, 0, 0] 0 (map snd (controllers_alive g))
                 @ phase n4 [50, 75, 0] 0 (map snd (controllers_alive g))
                 @ phase n5 [0, 50, 0] 0 (map snd (controllers_alive g))
                 @ map (\<lambda>x. Set_leds (snd x)
                          (the (dict_of (zip (map get_serial (moves g)) cs) (get_serial (snd x)))))
                     (controllers_alive g),
               move_last_values := Map.empty, running := True\<rparr>)"
proof -
  let ?pal = "dict_of (zip (map get_serial (moves g)) cs)"
  obtain cs' where cs': "palette (length (moves g)) = Return cs'" "length cs' = length (moves g)"
    "\<forall>i < length (moves g). \<exists>rgb. hsv_to_rgb (hue i (length (moves g))) 1 1 = Some rgb
        \<and> length rgb = 3 \<and> cs' ! i = map py_int rgb"
    using palette_nth by blast
  with pal have len: "length cs = length (moves g)" and eq: "cs' = cs" by auto
  have three: "length c = 3" if "c \<in> set cs" for c
  proof -
    from that len obtain i where i: "i < length (moves g)" "c = cs ! i"
      by (auto simp add: in_set_conv_nth)
    with cs'(3) eq obtain rgb where "length rgb = 3" "cs ! i = map py_int rgb" by blast
    with i show ?thesis by simp
  qed
  have ok: "\<exists>c. ?pal (get_serial (snd x)) = Some c \<and> length c = 3" if "x \<in> set (controllers_alive g)" for x
  proof -
    from roster that have "get_serial (snd x) \<in> set (map get_serial (moves g))" by blast
    from dict_of_zip_in [OF _ this, of cs] len three show ?thesis
      by auto
  qed
  let ?g5 = "g\<lparr>controller_colours := ?pal, clock := c5,
               trace := trace g
                 @ phase n1 [255, 255, 255] 0 (map snd (controllers_alive g))
                 @ phase n2 [255, 255, 255] 100 (map snd (controllers_alive g))
                 @ phase n3 [50, 0, 0] 0 (map snd (controllers_alive g))
                 @ phase n4 [50, 75, 0] 0 (map snd (controllers_alive g))
                 @ phase n5 [0, 50, 0] 0 (map snd (controllers_alive g))\<rparr>"
  have a: "assign_colours (controllers_alive g) ?g5 =
      Return (?g5\<lparr>trace := trace ?g5 @ map (\<lambda>x. Set_leds (snd x) (the (controller_colours ?g5 (get_serial (snd x))))) (controllers_alive g)\<rparr>)"
    by (rule assign_colours_eq) (use ok in simp)
  show ?thesis
    unfolding round_start_def
    by (simp add: regenerate_colours_eq [OF pal] sleep_controllers_eq t1 t2 t3 t4 t5 a Let_def)
qed


lemma dict_of_zip_None:
  "length ks = length vs \<Longrightarrow> k \<notin> set ks \<Longrightarrow> dict_of (zip ks vs) k = None"
  by (auto simp add: dict_of_def map_of_eq_None_iff dest: set_zip_leftD)

lemma round_start_raises:
  assumes pal: "palette (length (moves g)) = Return cs"
    and t1: "timed_phase (1 / 2) (clock g) = Some (n1, c1)"
    and t2: "timed_phase (fl (3 / 10)) c1 = Some (n2, c2)"
    and t3: "timed_phase (3 / 4) c2 = Some (n3, c3)"
    and t4: "timed_phase (3 / 4) c3 = Some (n4, c4)"
    and t5: "timed_phase (3 / 4) c4 = Some (n5, c5)"
    and x: "x \<in> set (controllers_alive g)"
      "get_serial (snd x) \<notin> set (map get_serial (moves g))"
  shows "round_start g = Raises KeyError"
proof -
  let ?pal = "dict_of (zip (map get_serial (moves g)) cs)"
  obtain cs' where cs': "palette (length (moves g)) = Return cs'" "length cs' = length (moves g)"
    "\<forall>i < length (moves g). \<exists>rgb. hsv_to_rgb (hue i (length (moves g))) 1 1 = Some rgb
        \<and> length rgb = 3 \<and> cs' ! i = map py_int rgb"
    using palette_nth by blast
  with pal have len: "length cs = length (moves g)" and eq: "cs' = cs" by auto
  have three: "length c = 3" if "c \<in> set cs" for c
  proof -
    from that len obtain i where i: "i < length (moves g)" "c = cs ! i"
      by (auto simp add: in_set_conv_nth)
    with cs'(3) eq obtain rgb where "length rgb = 3" "cs ! i = map py_int rgb" by blast
    with i show ?thesis by simp
  qed
  have all3: "length c = 3" if "?pal k = Some c" for k c
  proof (cases "k \<in> set (map get_serial (moves g))")
    case True
    from dict_of_zip_in [OF _ this, of cs] len that three show ?thesis by auto
  next
    case False
    from dict_of_zip_None [OF _ this, of cs] len that show ?thesis by simp
  qed
  have none: "?pal (get_serial (snd x)) = None"
    using dict_of_zip_None [OF _ x(2), of cs] len by simp
  let ?g5 = "g\<lparr>controller_colours := ?pal, clock := c5,
               trace := trace g
                 @ phase n1 [255, 255, 255] 0 (map snd (controllers_alive g))
                 @ phase n2 [255, 255, 255] 100 (map snd (controllers_alive g))
                 @ phase n3 [50, 0, 0] 0 (map snd (controllers_alive g))
                 @ phase n4 [50, 75, 0] 0 (map snd (controllers_alive g))
                 @ phase n5 [0, 50, 0] 0 (map snd (controllers_alive g))\<rparr>"
  have a: "assign_colours (controllers_alive g) ?g5 = Raises KeyError"
    by (rule assign_colours_key_error [OF x(1)]) (use none all3 in auto)
  show ?thesis
    unfolding round_start_def
    by (simp add: regenerate_colours_eq [OF pal] sleep_controllers_eq t1 t2 t3 t4 t5 a Let_def)
qed

text \<open>
  C8. A round start drives the contestants through the five phases and then gives each
  its palette colour (\<open>round_start_eq\<close>) only if every contestant's serial is in the roster.
  The lobby of \<open>vanish_lobby\<close> hands over the contestants A and B with the roster B and C;
  the five phases run, and the assignment of line 164 then raises KeyError for A.
\<close>

theorem round_start_key_error:
  "case lobby vanish_lobby (initial True [0, 1 / 4, 1 / 2, 1, 2, 3, 4, 5, 6, 7, 8, 9]) of
     Return g \<Rightarrow> (case round_start g of Raises e \<Rightarrow> e = KeyError | _ \<Rightarrow> False)
   | _ \<Rightarrow> False"
  by code_simp

section \<open>Properties of the round\<close>

lemma feedback_NoSample: "feedback NoSample serial m g = Return g"
  by (simp add: feedback_def)

lemma feedback_Eliminated:
  "feedback Eliminated serial m g =
     (if serial \<in> set (dict_keys (controllers_alive g))
      then Return (g\<lparr>controllers_alive := filter (\<lambda>(k, v). k \<noteq> serial) (controllers_alive g),
                     trace := trace g @ [Set_leds m [0, 0, 0], Set_rumble m 100]\<rparr>)
      else Raises KeyError)"
  by (simp add: feedback_def dict_del_def emit_def)

lemma feedback_Warning:
  "feedback Warning serial m g =
     (case controller_colours g (get_serial m) of
        None \<Rightarrow> Raises KeyError
      | Some c \<Rightarrow> if length c = 3
                  then Return (g\<lparr>trace := trace g @ [Set_leds m (map (\<lambda>v. py_int (fmul (py_float v) (fl (3 / 10)))) c)]\<rparr>)
                  else Raises TypeError)"
  by (simp add: feedback_def set_leds_star_def dimmed_def emit_def split: option.splits)

lemma feedback_Alive:
  "feedback Alive serial m g =
     (case controller_colours g (get_serial m) of
        None \<Rightarrow> Raises KeyError
      | Some c \<Rightarrow> if length c = 3
                  then Return (g\<lparr>trace := trace g @ [Set_leds m c, Set_rumble m 0]\<rparr>)
                  else Raises TypeError)"
  by (simp add: feedback_def set_leds_star_def emit_def split: option.splits)

lemmas feedback_cases = feedback_NoSample feedback_Eliminated feedback_Warning feedback_Alive

lemma update_move_polled:
  assumes "poll r" and "get_accelerometer_frame r = (ax, ay, az)"
  shows "update_move r serial m g =
     bnd (feedback (classify (move_last_values g serial) (fadd (fadd (fadd 0 ax) ay) az)) serial m
            (g\<lparr>poll_failures := (poll_failures g)(get_serial m := 0), trace := trace g @ [Poll m]\<rparr>))
       (\<lambda>g2. Return (g2\<lparr>trace := trace g2 @ [Update_leds m],
                         move_last_values := (move_last_values g2)(serial \<mapsto> fadd (fadd (fadd 0 ax) ay) az)\<rparr>))"
  using assms by (simp add: update_move_def poll_move_success sample_sum_def emit_def Let_def)

lemma update_move_failed:
  assumes "\<not> poll r"
  shows "update_move r serial m g =
     (if 1000 < poll_failures g (get_serial m) + 1
      then (case get_serial m of
              None \<Rightarrow> Raises TypeError
            | Some s \<Rightarrow>
                Return (g\<lparr>poll_failures :=
                             (poll_failures g)(get_serial m := poll_failures g (get_serial m) + 1),
                           trace := trace g @ [Poll m, Disconnect s]\<rparr>))
      else Return (g\<lparr>poll_failures :=
                       (poll_failures g)(get_serial m := poll_failures g (get_serial m) + 1),
                     trace := trace g @ [Poll m]\<rparr>))"
  using assms by (simp add: update_move_def poll_move_failure split: option.splits)

text \<open>The effect of a returning update with a successful poll, by verdict.\<close>

lemma update_move_effect:
  assumes "poll r" and "get_accelerometer_frame r = (ax, ay, az)"
    and "update_move r serial m g = Return g'"
  shows "move_last_values g' = (move_last_values g)(serial \<mapsto> fadd (fadd (fadd 0 ax) ay) az)
           \<and> controller_colours g' = controller_colours g"
    and "classify (move_last_values g serial) (fadd (fadd (fadd 0 ax) ay) az) = NoSample
         \<Longrightarrow> trace g' = trace g @ [Poll m, Update_leds m] \<and> controllers_alive g' = controllers_alive g"
    and "classify (move_last_values g serial) (fadd (fadd (fadd 0 ax) ay) az) = Eliminated
         \<Longrightarrow> trace g' = trace g @ [Poll m, Set_leds m [0, 0, 0], Set_rumble m 100, Update_leds m]
             \<and> controllers_alive g' = filter (\<lambda>(k, v). k \<noteq> serial) (controllers_alive g)"
    and "classify (move_last_values g serial) (fadd (fadd (fadd 0 ax) ay) az) = Warning
         \<Longrightarrow> (\<exists>c. controller_colours g (get_serial m) = Some c
               \<and> trace g' = trace g @ [Poll m, Set_leds m (map (\<lambda>v. py_int (fmul (py_float v) (fl (3 / 10)))) c),
                                         Update_leds m])
             \<and> controllers_alive g' = controllers_alive g"
    and "classify (move_last_values g serial) (fadd (fadd (fadd 0 ax) ay) az) = Alive
         \<Longrightarrow> (\<exists>c. controller_colours g (get_serial m) = Some c
               \<and> trace g' = trace g @ [Poll m, Set_leds m c, Set_rumble m 0, Update_leds m])
             \<and> controllers_alive g' = controllers_alive g"
proof -
  let ?x = "fadd (fadd (fadd 0 ax) ay) az"
  let ?v = "classify (move_last_values g serial) ?x"
  note u = assms(3) [unfolded update_move_polled [OF assms(1,2)]]
  show "move_last_values g' = (move_last_values g)(serial \<mapsto> ?x)
      \<and> controller_colours g' = controller_colours g"
    using u by (cases ?v) (auto simp add: feedback_cases split: if_splits option.splits)
  show "?v = NoSample \<Longrightarrow> trace g' = trace g @ [Poll m, Update_leds m] \<and> controllers_alive g' = controllers_alive g"
    using u by (auto simp add: feedback_cases)
  show "?v = Eliminated
         \<Longrightarrow> trace g' = trace g @ [Poll m, Set_leds m [0, 0, 0], Set_rumble m 100, Update_leds m]
             \<and> controllers_alive g' = filter (\<lambda>(k, v). k \<noteq> serial) (controllers_alive g)"
    using u by (auto simp add: feedback_cases split: if_splits)
  show "?v = Warning
         \<Longrightarrow> (\<exists>c. controller_colours g (get_serial m) = Some c
               \<and> trace g' = trace g @ [Poll m, Set_leds m (map (\<lambda>v. py_int (fmul (py_float v) (fl (3 / 10)))) c),
                                         Update_leds m])
             \<and> controllers_alive g' = controllers_alive g"
    using u by (auto simp add: feedback_cases split: if_splits option.splits)
  show "?v = Alive
         \<Longrightarrow> (\<exists>c. controller_colours g (get_serial m) = Some c
               \<and> trace g' = trace g @ [Poll m, Set_leds m c, Set_rumble m 0, Update_leds m])
             \<and> controllers_alive g' = controllers_alive g"
    using u by (auto simp add: feedback_cases split: if_splits option.splits)
qed

lemma update_move_returns:
  assumes "poll r" and "serial \<in> set (dict_keys (controllers_alive g))"
    and "controller_colours g (get_serial m) = Some c" and "length c = 3"
  shows "\<exists>g'. update_move r serial m g = Return g'"
proof -
  obtain ax ay az where f: "get_accelerometer_frame r = (ax, ay, az)"
    by (cases "get_accelerometer_frame r")
  show ?thesis
    unfolding update_move_polled [OF assms(1) f]
    using assms(2-4)
    by (cases "classify (move_last_values g serial) (fadd (fadd (fadd 0 ax) ay) az)")
       (simp_all add: feedback_cases)
qed


text \<open>
  C2. With \<open>(ax, ay, az)\<close> the sample of a successful poll, every returning update stores
  \<open>((0 + ax) + ay) + az\<close> as the baseline of that serial and changes no other baseline,
  whatever the verdict; the verdict is the classification of that sum against the baseline
  stored before the update, and the feedback follows it (no colour or rumble for NoSample,
  dark with rumble 100 and removal for Eliminated, the dimmed palette colour for Warning,
  the palette colour with rumble 0 for Alive). With no baseline stored the verdict is
  NoSample. Of two updates in a row the second classifies against the sum of the first.
  The update returns whenever the serial is in the contestant set and the device has a
  palette entry. When the poll fails, a returning update changes neither the baselines nor
  the contestant set; it returns unless the device has no serial and its failure counter
  has reached 1000, in which case it raises a TypeError.
\<close>

theorem baseline_overwritten:
  "(poll r \<and> get_accelerometer_frame r = (ax, ay, az) \<and> update_move r serial m g = Return g'
      \<longrightarrow> (move_last_values g' = (move_last_values g)(serial \<mapsto> fadd (fadd (fadd 0 ax) ay) az)
             \<and> controller_colours g' = controller_colours g)
          \<and> (classify (move_last_values g serial) (fadd (fadd (fadd 0 ax) ay) az) = NoSample
               \<longrightarrow> trace g' = trace g @ [Poll m, Update_leds m]
                   \<and> controllers_alive g' = controllers_alive g)
          \<and> (classify (move_last_values g serial) (fadd (fadd (fadd 0 ax) ay) az) = Eliminated
               \<longrightarrow> trace g' = trace g @ [Poll m, Set_leds m [0, 0, 0], Set_rumble m 100, Update_leds m]
                   \<and> controllers_alive g' = filter (\<lambda>(k, v). k \<noteq> serial) (controllers_alive g))
          \<and> (classify (move_last_values g serial) (fadd (fadd (fadd 0 ax) ay) az) = Warning
               \<longrightarrow> (\<exists>c. controller_colours g (get_serial m) = Some c
                      \<and> trace g' = trace g @ [Poll m,
                            Set_leds m (map (\<lambda>v. py_int (fmul (py_float v) (fl (3 / 10)))) c),
                            Update_leds m])
                   \<and> controllers_alive g' = controllers_alive g)
          \<and> (classify (move_last_values g serial) (fadd (fadd (fadd 0 ax) ay) az) = Alive
               \<longrightarrow> (\<exists>c. controller_colours g (get_serial m) = Some c
                      \<and> trace g' = trace g @ [Poll m, Set_leds m c, Set_rumble m 0, Update_leds m])
                   \<and> controllers_alive g' = controllers_alive g))
   \<and> (move_last_values g serial = None
        \<longrightarrow> classify (move_last_values g serial) (fadd (fadd (fadd 0 ax) ay) az) = NoSample)
   \<and> (poll r \<and> get_accelerometer_frame r = (ax, ay, az) \<and> update_move r serial m g = Return g'
       \<and> poll r2 \<and> get_accelerometer_frame r2 = (bx, by, bz)
       \<and> update_move r2 serial m g' = Return g''
      \<longrightarrow> move_last_values g'' serial = Some (fadd (fadd (fadd 0 bx) by) bz)
          \<and> (classify (Some (fadd (fadd (fadd 0 ax) ay) az)) (fadd (fadd (fadd 0 bx) by) bz)
                = Eliminated
               \<longrightarrow> controllers_alive g''
                     = filter (\<lambda>(k, v). k \<noteq> serial) (controllers_alive g'))
          \<and> (classify (Some (fadd (fadd (fadd 0 ax) ay) az)) (fadd (fadd (fadd 0 bx) by) bz)
                \<noteq> Eliminated
               \<longrightarrow> controllers_alive g'' = controllers_alive g'))
   \<and> (poll r \<and> serial \<in> set (dict_keys (controllers_alive g))
         \<and> (\<exists>c. controller_colours g (get_serial m) = Some c \<and> length c = 3)
        \<longrightarrow> (\<exists>g1. update_move r serial m g = Return g1))
   \<and> (\<not> poll r \<and> update_move r serial m g = Return g'
        \<longrightarrow> move_last_values g' = move_last_values g
            \<and> controllers_alive g' = controllers_alive g)
   \<and> (\<not> poll r \<and> (get_serial m \<noteq> None \<or> poll_failures g (get_serial m) < 1000)
        \<longrightarrow> (\<exists>g1. update_move r serial m g = Return g1))
   \<and> (\<not> poll r \<and> get_serial m = None \<and> 1000 \<le> poll_failures g (get_serial m)
        \<longrightarrow> update_move r serial m g = Raises TypeError)"
proof -
  let ?x = "fadd (fadd (fadd 0 ax) ay) az" and ?y = "fadd (fadd (fadd 0 bx) by) bz"
  have none: "classify (move_last_values g serial) ?x = NoSample"
    if "move_last_values g serial = None"
    using that by (simp add: classify_def)
  have two: "move_last_values g'' serial = Some ?y
      \<and> (classify (Some ?x) ?y = Eliminated
            \<longrightarrow> controllers_alive g'' = filter (\<lambda>(k, v). k \<noteq> serial) (controllers_alive g'))
      \<and> (classify (Some ?x) ?y \<noteq> Eliminated \<longrightarrow> controllers_alive g'' = controllers_alive g')"
    if a: "poll r" "get_accelerometer_frame r = (ax, ay, az)" "update_move r serial m g = Return g'"
      and b: "poll r2" "get_accelerometer_frame r2 = (bx, by, bz)"
        "update_move r2 serial m g' = Return g''"
  proof -
    from update_move_effect(1) [OF a] have s: "move_last_values g' serial = Some ?x" by simp
    note e = update_move_effect [OF b, unfolded s]
    show ?thesis
      using e by (cases "classify (Some ?x) ?y") simp_all
  qed
  have failed: "move_last_values g' = move_last_values g \<and> controllers_alive g' = controllers_alive g"
    if "\<not> poll r" "update_move r serial m g = Return g'"
    using that(2) unfolding update_move_failed [OF that(1)]
    by (auto split: if_splits option.splits)
  have failed_returns: "\<exists>g1. update_move r serial m g = Return g1"
    if "\<not> poll r" "get_serial m \<noteq> None \<or> poll_failures g (get_serial m) < 1000"
    using that(2) unfolding update_move_failed [OF that(1)] by auto
  have failed_raises: "update_move r serial m g = Raises TypeError"
    if "\<not> poll r" "get_serial m = None" "1000 \<le> poll_failures g (get_serial m)"
    using that(2,3) unfolding update_move_failed [OF that(1)] by simp
  have one: "(move_last_values g' = (move_last_values g)(serial \<mapsto> ?x)
             \<and> controller_colours g' = controller_colours g)
          \<and> (classify (move_last_values g serial) ?x = NoSample
               \<longrightarrow> trace g' = trace g @ [Poll m, Update_leds m]
                   \<and> controllers_alive g' = controllers_alive g)
          \<and> (classify (move_last_values g serial) ?x = Eliminated
               \<longrightarrow> trace g' = trace g @ [Poll m, Set_leds m [0, 0, 0], Set_rumble m 100, Update_leds m]
                   \<and> controllers_alive g' = filter (\<lambda>(k, v). k \<noteq> serial) (controllers_alive g))
          \<and> (classify (move_last_values g serial) ?x = Warning
               \<longrightarrow> (\<exists>c. controller_colours g (get_serial m) = Some c
                      \<and> trace g' = trace g @ [Poll m,
                            Set_leds m (map (\<lambda>v. py_int (fmul (py_float v) (fl (3 / 10)))) c),
                            Update_leds m])
                   \<and> controllers_alive g' = controllers_alive g)
          \<and> (classify (move_last_values g serial) ?x = Alive
               \<longrightarrow> (\<exists>c. controller_colours g (get_serial m) = Some c
                      \<and> trace g' = trace g @ [Poll m, Set_leds m c, Set_rumble m 0, Update_leds m])
                   \<and> controllers_alive g' = controllers_alive g)"
    if "poll r" "get_accelerometer_frame r = (ax, ay, az)" "update_move r serial m g = Return g'"
    using update_move_effect [OF that]
    apply -
    apply (intro conjI impI)
            apply simp_all
    done
  have ret: "\<exists>g1. update_move r serial m g = Return g1"
    if "poll r" "serial \<in> set (dict_keys (controllers_alive g))"
      "\<exists>c. controller_colours g (get_serial m) = Some c \<and> length c = 3"
    using that update_move_returns [of r serial g m] by blast
  show ?thesis
    apply (intro conjI)
          apply (intro impI, elim conjE, rule one; assumption)
         apply (intro impI, rule none; assumption)
        apply (intro impI, elim conjE, rule two; assumption)
       apply (intro impI, elim conjE, rule ret; assumption)
      apply (intro impI, elim conjE, rule failed; assumption)
     apply (intro impI, elim conjE, rule failed_returns; assumption)
    apply (intro impI, elim conjE, rule failed_raises; assumption)
    done
qed


theorem baseline_overwritten_witness:
  "move_last_values arena (Some ''A'') = Some 1
   \<and> (\<exists>g'. update_move jerk (Some ''A'') (device 1 ''A'') arena = Return g'
        \<and> move_last_values g' (Some ''A'') = Some 2
        \<and> trace g' = [Poll (device 1 ''A''), Set_leds (device 1 ''A'') [0, 0, 0],
                       Set_rumble (device 1 ''A'') 100, Update_leds (device 1 ''A'')]
        \<and> controllers_alive g' = [(Some ''B'', device 2 ''B'')])
   \<and> move_last_values arena (Some ''B'') = None
   \<and> (\<exists>g' g''. update_move still (Some ''B'') (device 2 ''B'') arena = Return g'
        \<and> trace g' = [Poll (device 2 ''B''), Update_leds (device 2 ''B'')]
        \<and> move_last_values g' (Some ''B'') = Some 1
        \<and> controllers_alive g' = controllers_alive arena
        \<and> update_move jerk (Some ''B'') (device 2 ''B'') g' = Return g''
        \<and> move_last_values g'' (Some ''B'') = Some 2
        \<and> controllers_alive g'' = [(Some ''A'', device 1 ''A'')])
   \<and> (\<exists>g'. update_move (still\<lparr>poll := False\<rparr>) (Some ''A'') (device 1 ''A'') arena = Return g'
        \<and> move_last_values g' = move_last_values arena)
   \<and> update_move (still\<lparr>poll := False\<rparr>) None unnamed (arena\<lparr>poll_failures := (\<lambda>s. 1000)\<rparr>)
       = Raises TypeError"
proof -
  let ?A = "device 1 ''A''" and ?B = "device 2 ''B''"
  have s1: "fadd (fadd (fadd 0 0) 0) 1 = 1" and s2: "fadd (fadd (fadd 0 0) 0) 2 = 2"
    by code_simp+
  have v: "classify (Some 1) 2 = Eliminated" by code_simp
  have r: "poll jerk" "poll still" "\<not> poll (still\<lparr>poll := False\<rparr>)"
    "get_accelerometer_frame jerk = (0, 0, 2)" "get_accelerometer_frame still = (0, 0, 1)"
    by (simp_all add: jerk_def still_def)
  have a: "move_last_values arena (Some ''A'') = Some 1" "move_last_values arena (Some ''B'') = None"
    "Some ''A'' \<in> set (dict_keys (controllers_alive arena))"
    "Some ''B'' \<in> set (dict_keys (controllers_alive arena))"
    "controller_colours arena (get_serial ?A) = Some [255, 0, 0]"
    "controller_colours arena (get_serial ?B) = Some [0, 255, 255]"
    "controllers_alive arena = [(Some ''A'', ?A), (Some ''B'', ?B)]" "trace arena = []"
    "get_serial ?A \<noteq> None"
    by (simp_all add: arena_def initial_def dict_keys_def device_def)
  \<comment> \<open>A, whose baseline is 1, is sampled at 2: eliminated, baseline 2.\<close>
  have "\<exists>c. controller_colours arena (get_serial ?A) = Some c \<and> length c = 3"
    using a(5) by simp
  with baseline_overwritten [of jerk 0 0 2 "Some ''A''" ?A arena] r(1) a(3)
  obtain gA where gA: "update_move jerk (Some ''A'') ?A arena = Return gA" by blast
  from baseline_overwritten [of jerk 0 0 2 "Some ''A''" ?A arena gA] r(1,4) gA
  have one: "move_last_values gA (Some ''A'') = Some 2
      \<and> trace gA = [Poll ?A, Set_leds ?A [0, 0, 0], Set_rumble ?A 100, Update_leds ?A]
      \<and> controllers_alive gA = [(Some ''B'', ?B)]"
    by (simp add: a s2 v)
  \<comment> \<open>B has no baseline: sampled at 1 and then at 2, it is eliminated at the second sample.\<close>
  have "\<exists>c. controller_colours arena (get_serial ?B) = Some c \<and> length c = 3"
    using a(6) by simp
  with baseline_overwritten [of still 0 0 1 "Some ''B''" ?B arena] r(2) a(4)
  obtain gB where gB: "update_move still (Some ''B'') ?B arena = Return gB" by blast
  from baseline_overwritten [of still 0 0 1 "Some ''B''" ?B arena gB] r(2,5) gB
  have two: "move_last_values gB (Some ''B'') = Some 1 \<and> controller_colours gB = controller_colours arena
      \<and> trace gB = [Poll ?B, Update_leds ?B] \<and> controllers_alive gB = controllers_alive arena"
    by (simp add: a s1)
  then have "Some ''B'' \<in> set (dict_keys (controllers_alive gB))"
    "\<exists>c. controller_colours gB (get_serial ?B) = Some c \<and> length c = 3"
    using a(4,6) by simp_all
  with baseline_overwritten [of jerk 0 0 2 "Some ''B''" ?B gB] r(1)
  obtain gB2 where gB2: "update_move jerk (Some ''B'') ?B gB = Return gB2" by blast
  from baseline_overwritten [of still 0 0 1 "Some ''B''" ?B arena gB jerk 0 0 2 gB2] r(1,2,4,5) gB gB2
  have three: "move_last_values gB2 (Some ''B'') = Some 2
      \<and> controllers_alive gB2 = [(Some ''A'', ?A)]"
    using two by (simp add: a s1 s2 v)
  \<comment> \<open>A failed poll.\<close>
  from baseline_overwritten [of "still\<lparr>poll := False\<rparr>" 0 0 1 "Some ''A''" ?A arena] r(3) a(9)
  obtain gF where gF: "update_move (still\<lparr>poll := False\<rparr>) (Some ''A'') ?A arena = Return gF"
    by blast
  from baseline_overwritten [of "still\<lparr>poll := False\<rparr>" 0 0 1 "Some ''A''" ?A arena gF] r(3) gF
  have four: "move_last_values gF = move_last_values arena" by simp
  have five: "update_move (still\<lparr>poll := False\<rparr>) None unnamed
      (arena\<lparr>poll_failures := (\<lambda>s. 1000)\<rparr>) = Raises TypeError"
    using baseline_overwritten [of "still\<lparr>poll := False\<rparr>" 0 0 1 None unnamed
        "arena\<lparr>poll_failures := (\<lambda>s. 1000)\<rparr>"] r(3)
    by (simp add: unnamed_def)
  show ?thesis
    using a(1,2) gA one gB two gB2 three gF four five by blast
qed


lemma win_loop_runs:
  assumes "\<forall>t \<in> set before. t < pt" and "\<not> t_end < pt"
    and "cs \<noteq> []" and "\<forall>c \<in> set cs. length c = 3"
  shows "\<exists>g'. win_loop pt m cs ms (before @ t_end # rest) g = Return g'
     \<and> clock g' = rest
     \<and> trace g' = trace g @ concat (map (\<lambda>k. win_step m ms (cs ! (k mod length cs))) [0..<length before])
     \<and> moves g' = moves g"
  using assms
proof (induction before arbitrary: cs g)
  case Nil
  then show ?case by simp
next
  case (Cons t before)
  from Cons.prems(3) obtain c cs' where cs: "cs = c # cs'" by (cases cs) auto
  let ?g1 = "emit ([Set_rumble m 100, Poll m, Update_leds m] @ concat (map buzz ms) @ [Sleep (fl (1 / 100))]) (emit [Set_leds m c] g)"
  have r: "cs' @ [c] \<noteq> []" "\<forall>c \<in> set (cs' @ [c]). length c = 3"
    using Cons.prems(4) cs by auto
  have b: "\<forall>t \<in> set before. t < pt" using Cons.prems(1) by simp
  from Cons.IH [OF b Cons.prems(2) r, of ?g1] obtain g' where
    g': "win_loop pt m (cs' @ [c]) ms (before @ t_end # rest) ?g1 = Return g'"
      "clock g' = rest" "moves g' = moves ?g1"
      "trace g' = trace ?g1 @ concat (map (\<lambda>k. win_step m ms ((cs' @ [c]) ! (k mod length (cs' @ [c])))) [0..<length before])"
    by blast
  have rot: "(cs' @ [c]) ! (k mod length (cs' @ [c])) = cs ! (Suc k mod length cs)" for k
    using nth_rotate1 [of "k mod length cs" cs] cs by (simp add: mod_Suc_eq)
  have step: "win_loop pt m cs ms ((t # before) @ t_end # rest) g = Return g'"
    using Cons.prems(1,4) cs g'(1) by (simp add: set_leds_star_def)
  have "map (\<lambda>k. win_step m ms (cs ! (k mod length cs))) [0..<length (t # before)]
        = win_step m ms c # map (\<lambda>k. win_step m ms (cs ! (Suc k mod length cs))) [0..<length before]"
    using cs by (simp add: map_upt_Suc del: upt_Suc)
  then have "trace g' = trace g @ concat (map (\<lambda>k. win_step m ms (cs ! (k mod length cs))) [0..<length (t # before)])"
    using g'(4) rot by (simp add: emit_def win_step_def)
  with step g'(2,3) show ?case by (auto simp add: emit_def)
qed


lemma win_runs:
  assumes "controllers_alive g = [(serial, m)]"
    and "clock g = now # before @ t_end # rest"
    and "\<forall>t \<in> set before. t < fadd now 3" and "\<not> t_end < fadd now 3"
  shows "\<exists>cs g'. rainbow = Return cs \<and> length cs = 50 \<and> win g = Return g'
     \<and> running g' = False \<and> controllers_alive g' = [] \<and> clock g' = rest \<and> moves g' = moves g
     \<and> trace g' = trace g @ concat (map darken (moves g))
          @ concat (map (\<lambda>k. win_step m (moves g) (cs ! (k mod 50))) [0..<length before])"
proof -
  obtain cs where cs: "rainbow = Return cs" "length cs = 50" "\<forall>c \<in> set cs. length c = 3"
    using rainbow_returns by blast
  then have ne: "cs \<noteq> []" by auto
  let ?g1 = "emit (concat (map darken (moves g))) g"
  from win_loop_runs [OF assms(3,4) ne cs(3), of m "moves g" rest ?g1] obtain g1 where
    g1: "win_loop (fadd now 3) m cs (moves g) (before @ t_end # rest) ?g1 = Return g1"
      "clock g1 = rest" "moves g1 = moves ?g1"
      "trace g1 = trace ?g1 @ concat (map (\<lambda>k. win_step m (moves g) (cs ! (k mod length cs))) [0..<length before])"
    by blast
  have "win g = Return (g1\<lparr>running := False, controllers_alive := []\<rparr>)"
    by (simp add: win_def cs(1) assms(1,2) g1(1))
  with cs g1 show ?thesis
    by (intro exI [of _ cs] exI [of _ "g1\<lparr>running := False, controllers_alive := []\<rparr>"])
       (simp add: emit_def)
qed


lemma rainbow_colours:
  assumes "rainbow = Return cs"
  shows "length cs = 50"
    and "\<forall>k < 50. \<exists>rgb. hsv_to_rgb (fdiv (fmul (py_float (int k)) 1) (py_float 50)) (fl (9 / 10)) 1
                           = Some rgb \<and> cs ! k = map py_int rgb"
proof -
  let ?hs = "map (\<lambda>x. (hue x 50, fl (9 / 10), 1)) [0..<50]"
  from colour_ranges_nth [of ?hs] assms have l: "length cs = length ?hs"
    and n: "\<forall>i < length ?hs. \<exists>rgb. (case ?hs ! i of (h, s, v) \<Rightarrow> hsv_to_rgb h s v) = Some rgb
            \<and> length rgb = 3 \<and> cs ! i = map py_int rgb"
    by (auto simp add: rainbow_def)
  from l show "length cs = 50" by simp
  show "\<forall>k < 50. \<exists>rgb. hsv_to_rgb (fdiv (fmul (py_float (int k)) 1) (py_float 50)) (fl (9 / 10)) 1
                           = Some rgb \<and> cs ! k = map py_int rgb"
  proof (intro allI impI)
    fix k :: nat
    assume k: "k < 50"
    with n have "\<exists>rgb. (case ?hs ! k of (h, s, v) \<Rightarrow> hsv_to_rgb h s v) = Some rgb
            \<and> length rgb = 3 \<and> cs ! k = map py_int rgb" by simp
    with k show "\<exists>rgb. hsv_to_rgb (fdiv (fmul (py_float (int k)) 1) (py_float 50)) (fl (9 / 10)) 1
                           = Some rgb \<and> cs ! k = map py_int rgb"
      by (auto simp add: hue_def)
  qed
qed

lemma rainbow_first:
  "map py_int (the (hsv_to_rgb (fdiv (fmul (py_float 0) 1) (py_float 50)) (fl (9 / 10)) 1)) = [255, 25, 25]"
  by code_simp

lemma rainbow_second:
  "map py_int (the (hsv_to_rgb (fdiv (fmul (py_float 1) 1) (py_float 50)) (fl (9 / 10)) 1)) = [255, 53, 25]"
  by code_simp

lemma rainbow_middle:
  "map py_int (the (hsv_to_rgb (fdiv (fmul (py_float 25) 1) (py_float 50)) (fl (9 / 10)) 1)) = [25, 255, 255]"
  by code_simp


text \<open>
  C7. When exactly one contestant is left at a contestant's turn, and the clock goes on to
  reach the deadline of three seconds, the win sequence runs once and ends the round. Every
  device of the roster is set dark, polled and updated. Then, for every clock reading below
  the deadline, the survivor is set to the next of the 50 colours of the rainbow
  (cyclically; colour \<open>k\<close> is the integer part of \<open>hsv_to_rgb(k*1.0/50, 0.9, 1)\<close>, the first
  being (255, 25, 25)) with rumble 100, every device of the roster is set to rumble 100,
  and the program sleeps 0.01 s. Afterwards \<open>running\<close> is false and the contestant set is
  empty, the round loop returns, and the program goes on with the lobby of the next pass
  of the outer loop.
\<close>

theorem win_sequence:
  assumes "controllers_alive g = [(serial, m)]"
    and "clock g = now # before @ t_end # rest"
    and "\<forall>t \<in> set before. t < fadd now 3" and "\<not> t_end < fadd now 3"
  shows "\<exists>cs g'. length cs = 50
     \<and> (\<forall>k < 50. \<exists>rgb. hsv_to_rgb (fdiv (fmul (py_float (int k)) 1) (py_float 50)) (fl (9 / 10)) 1
                          = Some rgb \<and> cs ! k = map py_int rgb)
     \<and> cs ! 0 = [255, 25, 25] \<and> cs ! 1 = [255, 53, 25] \<and> cs ! 25 = [25, 255, 255]
     \<and> pass_moves sn (turn # turns) g = Return g'
     \<and> (running g \<longrightarrow> round_loop (w # ws) g = Return g'
           \<and> bnd (round_loop (w # ws) g) (main (nxt # later))
               = bnd (bnd (lobby (fst nxt) g') (\<lambda>g1. bnd (round_start g1) (round_loop (snd nxt))))
                   (main later))
     \<and> running g' = False \<and> controllers_alive g' = [] \<and> clock g' = rest
     \<and> trace g' = trace g
          @ concat (map (\<lambda>othermove. [Set_leds othermove [0, 0, 0], Poll othermove,
                                       Update_leds othermove]) (moves g))
          @ concat (map (\<lambda>k. [Set_leds m (cs ! (k mod 50)), Set_rumble m 100, Poll m, Update_leds m]
                              @ concat (map (\<lambda>othermove. [Set_rumble othermove 100, Poll othermove,
                                                           Update_leds othermove]) (moves g))
                              @ [Sleep (fl (1 / 100))]) [0..<length before])"
proof -
  from win_runs [OF assms] obtain cs g' where
    w: "rainbow = Return cs" "win g = Return g'" "running g' = False"
      "controllers_alive g' = []" "clock g' = rest"
      "trace g' = trace g @ concat (map darken (moves g))
          @ concat (map (\<lambda>k. win_step m (moves g) (cs ! (k mod 50))) [0..<length before])"
    by blast
  note c = rainbow_colours [OF w(1)]
  have pin: "cs ! k = map py_int (the (hsv_to_rgb (fdiv (fmul (py_float (int k)) 1) (py_float 50))
                                        (fl (9 / 10)) 1))" if "k < 50" for k
    using c(2) that by fastforce
  have pins: "cs ! 0 = [255, 25, 25]" "cs ! 1 = [255, 53, 25]" "cs ! 25 = [25, 255, 255]"
    using pin [of 0] pin [of 1] pin [of 25] rainbow_first rainbow_second rainbow_middle
    by simp_all
  have p: "pass_moves sn (turn # turns) g = Return g'"
    using assms(1) w(2) by (cases turn) simp
  have "round_pass w g = Return g'"
    using assms(1) w(2,3) by (simp add: round_pass_def)
  then have l: "round_loop (w # ws) g = Return g'" if "running g"
    using that w(3) by (cases ws) simp_all
  have lobby_next: "bnd (round_loop (w # ws) g) (main (nxt # later))
      = bnd (bnd (lobby (fst nxt) g') (\<lambda>g1. bnd (round_start g1) (round_loop (snd nxt)))) (main later)"
    if "running g"
    using l [OF that] by (simp add: play_def)
  have t: "trace g' = trace g
          @ concat (map (\<lambda>othermove. [Set_leds othermove [0, 0, 0], Poll othermove,
                                       Update_leds othermove]) (moves g))
          @ concat (map (\<lambda>k. [Set_leds m (cs ! (k mod 50)), Set_rumble m 100, Poll m, Update_leds m]
                              @ concat (map (\<lambda>othermove. [Set_rumble othermove 100, Poll othermove,
                                                           Update_leds othermove]) (moves g))
                              @ [Sleep (fl (1 / 100))]) [0..<length before])"
    unfolding w(6) by (simp add: darken_def win_step_def buzz_def cong: map_cong)
  show ?thesis
    apply (rule exI [of _ cs], rule exI [of _ g'])
    apply (intro conjI impI)
               apply (rule c(1))
              apply (rule c(2))
             apply (rule pins(1))
            apply (rule pins(2))
           apply (rule pins(3))
          apply (rule p)
         apply (erule l)
        apply (erule lobby_next)
       apply (rule w(3))
      apply (rule w(4))
     apply (rule w(5))
    apply (rule t)
    done
qed

theorem win_sequence_witness:
  "\<exists>g'. round_loop [\<lparr>connected_first = [], sense = (\<lambda>m. still), connected_later = []\<rparr>] survivor
           = Return g'
     \<and> running survivor \<and> controllers_alive survivor = [(Some ''A'', device 1 ''A'')]
     \<and> running g' = False \<and> controllers_alive g' = [] \<and> clock g' = [9]
     \<and> trace g' =
         [Set_leds (device 3 ''A'') [0, 0, 0], Poll (device 3 ''A''), Update_leds (device 3 ''A''),
          Set_leds (device 4 ''B'') [0, 0, 0], Poll (device 4 ''B''), Update_leds (device 4 ''B''),
          Set_leds (device 1 ''A'') [255, 25, 25], Set_rumble (device 1 ''A'') 100,
          Poll (device 1 ''A''), Update_leds (device 1 ''A''),
          Set_rumble (device 3 ''A'') 100, Poll (device 3 ''A''), Update_leds (device 3 ''A''),
          Set_rumble (device 4 ''B'') 100, Poll (device 4 ''B''), Update_leds (device 4 ''B''),
          Sleep (fl (1 / 100)),
          Set_leds (device 1 ''A'') [255, 53, 25], Set_rumble (device 1 ''A'') 100,
          Poll (device 1 ''A''), Update_leds (device 1 ''A''),
          Set_rumble (device 3 ''A'') 100, Poll (device 3 ''A''), Update_leds (device 3 ''A''),
          Set_rumble (device 4 ''B'') 100, Poll (device 4 ''B''), Update_leds (device 4 ''B''),
          Sleep (fl (1 / 100))]"
proof -
  have f: "fadd 0 3 = 3" by code_simp
  have a: "controllers_alive survivor = [(Some ''A'', device 1 ''A'')]"
    "clock survivor = 0 # [1, 2] @ 3 # [9]" "running survivor" "trace survivor = []"
    "moves survivor = [device 3 ''A'', device 4 ''B'']"
    by (simp_all add: survivor_def arena_def initial_def)
  have b: "\<forall>t \<in> set [1, 2::rat]. t < fadd 0 3" "\<not> (3::rat) < fadd 0 3"
    by (simp_all add: f)
  have u: "[0..<length [1, 2::rat]] = [0, 1]" by (simp add: upt_rec)
  from win_sequence [OF a(1,2) b, of "\<lambda>m. still" "(Some ''A'', device 1 ''A'')" "[]"
        "\<lparr>connected_first = [], sense = (\<lambda>m. still), connected_later = []\<rparr>" "[]"
        "([], [])" "[]"]
  obtain cs g' where
    r: "cs ! 0 = [255, 25, 25]" "cs ! 1 = [255, 53, 25]"
      "running survivor \<longrightarrow>
         round_loop [\<lparr>connected_first = [], sense = (\<lambda>m. still), connected_later = []\<rparr>] survivor
           = Return g'"
      "running g' = False" "controllers_alive g' = []" "clock g' = [9]"
      "trace g' = trace survivor
          @ concat (map (\<lambda>othermove. [Set_leds othermove [0, 0, 0], Poll othermove,
                                       Update_leds othermove]) (moves survivor))
          @ concat (map (\<lambda>k. [Set_leds (device 1 ''A'') (cs ! (k mod 50)),
                               Set_rumble (device 1 ''A'') 100, Poll (device 1 ''A''),
                               Update_leds (device 1 ''A'')]
                              @ concat (map (\<lambda>othermove. [Set_rumble othermove 100, Poll othermove,
                                                           Update_leds othermove]) (moves survivor))
                              @ [Sleep (fl (1 / 100))]) [0..<length [1, 2::rat]])"
    by blast
  have "trace g' =
         [Set_leds (device 3 ''A'') [0, 0, 0], Poll (device 3 ''A''), Update_leds (device 3 ''A''),
          Set_leds (device 4 ''B'') [0, 0, 0], Poll (device 4 ''B''), Update_leds (device 4 ''B''),
          Set_leds (device 1 ''A'') [255, 25, 25], Set_rumble (device 1 ''A'') 100,
          Poll (device 1 ''A''), Update_leds (device 1 ''A''),
          Set_rumble (device 3 ''A'') 100, Poll (device 3 ''A''), Update_leds (device 3 ''A''),
          Set_rumble (device 4 ''B'') 100, Poll (device 4 ''B''), Update_leds (device 4 ''B''),
          Sleep (fl (1 / 100)),
          Set_leds (device 1 ''A'') [255, 53, 25], Set_rumble (device 1 ''A'') 100,
          Poll (device 1 ''A''), Update_leds (device 1 ''A''),
          Set_rumble (device 3 ''A'') 100, Poll (device 3 ''A''), Update_leds (device 3 ''A''),
          Set_rumble (device 4 ''B'') 100, Poll (device 4 ''B''), Update_leds (device 4 ''B''),
          Sleep (fl (1 / 100))]"
    unfolding r(7) u using r(2) by (simp add: a(4,5) r(1))
  with r(3-6) a(1,3) show ?thesis by blast
qed


end
